theory Spec2Isabelle
  imports Main "HOL-Library.Extended_Nat" "HOL-Library.Multiset" "HOL-Library.Char_ord"
    "HOL-Library.List_Lexorder" "HOL-Library.Product_Lexorder"
begin

section \<open>Recently selected items (RecentSelectedItems.ts)\<close>

text \<open>
  The class keeps \<^verbatim>\<open>data = new Map<string, Array<string>>()\<close>, keyed by the name of
  the language plug-in's constructor, and a numeric \<^verbatim>\<open>limit\<close>. The map is a partial
  function, the arrays are lists (most recent first), the limit is an integer.
  An \<^verbatim>\<open>Item\<close> is known to this class through its \<^verbatim>\<open>id\<close> only.
\<close>

record Item =
  item_id :: string
  label :: string
  description :: string

record RecentSelectedItems =
  data :: "string \<rightharpoonup> string list"
  limit :: int

text \<open>\<^verbatim>\<open>has(language)\<close>: the plug-in has a recorded, non-empty history.\<close>

definition has :: "RecentSelectedItems \<Rightarrow> string \<Rightarrow> bool" where
  "has r language =
     (case data r language of None \<Rightarrow> False | Some list \<Rightarrow> length list > 0)"









section \<open>Options, errors and the library functions the code calls\<close>

text \<open>
  Errors are values: a JavaScript \<^verbatim>\<open>throw\<close> is the left summand of the result.
  \<^verbatim>\<open>TypeError\<close> is what reading a property of \<^verbatim>\<open>null\<close> or \<^verbatim>\<open>undefined\<close> throws,
  \<^verbatim>\<open>SyntaxError\<close> what \<^verbatim>\<open>new RegExp\<close> throws on a pattern that does not compile,
  \<^verbatim>\<open>FileNotFound\<close> what \<^verbatim>\<open>fs.readFileSync\<close> throws on a missing file,
  \<^verbatim>\<open>RangeError\<close> what a call throws when the call stack is exhausted,
  \<^verbatim>\<open>InvalidArguments\<close> the error that the constructor of \<^verbatim>\<open>vscode.Range\<close> throws when
  one of its four arguments is not a number.
\<close>

datatype js_error = TypeError | SyntaxError | FileNotFound | RangeError | InvalidArguments

text \<open>
  A compiled regular expression, as far as the code uses one: \<^verbatim>\<open>pattern.test(s)\<close> and
  \<^verbatim>\<open>s.replace(pattern, output)\<close>. A pattern of the configuration is \<open>None\<close> when
  \<^verbatim>\<open>new RegExp(source)\<close> throws.
\<close>

record RegExp =
  test :: "string \<Rightarrow> bool"
  replace :: "string \<Rightarrow> string \<Rightarrow> string"

datatype SyntaxOption = UseImport | UseRequire

datatype QuoteCharacter = Single | Double

text \<open>
  \<^verbatim>\<open>variableNamingConvention\<close>; \<open>NoConvention\<close> stands for \<^verbatim>\<open>'none'\<close> and for every
  other value, which all reach the final \<^verbatim>\<open>else\<close> of \<^verbatim>\<open>getVariableName\<close>.
\<close>

datatype NamingConvention = CamelCase | PascalCase | SnakeCase | LowerCase | NoConvention

text \<open>
  \<^verbatim>\<open>LanguageOptions\<close>. The two objects of patterns are the lists of their entries in
  the order \<^verbatim>\<open>_.toPairs\<close> gives them: \<^verbatim>\<open>predefinedVariableNames\<close> maps a pattern to an
  output, \<^verbatim>\<open>filteredFileList\<close> a document path pattern to a file path pattern.
\<close>

record LanguageOptions =
  syntax_option :: SyntaxOption
  grouping :: bool
  fileExtension :: bool
  indexFile :: bool
  quoteCharacter :: QuoteCharacter
  semiColons :: bool
  predefinedVariableNames :: "(RegExp option \<times> string) list"
  variableNamingConvention :: NamingConvention
  filteredFileList :: "(RegExp option \<times> RegExp option) list"

text \<open>
  The functions of lodash and of the string class that \<^verbatim>\<open>getVariableName\<close> calls for
  the named conventions; they are not code of this repository and stay parameters.
\<close>

record Lodash =
  camelCase :: "string \<Rightarrow> string"
  snakeCase :: "string \<Rightarrow> string"
  words :: "string \<Rightarrow> string list"
  upperFirst :: "string \<Rightarrow> string"
  toLowerCase :: "string \<Rightarrow> string"


section \<open>The binding-name transform (getVariableName)\<close>

text \<open>\<^verbatim>\<open>\d\<close>: the ten ASCII digits.\<close>

definition is_digit :: "char \<Rightarrow> bool" where
  "is_digit c = (c \<in> set ''0123456789'')"

text \<open>
  The character class \<^verbatim>\<open>[a-z_$1-9]\<close> under the flag \<^verbatim>\<open>i\<close>: the ASCII letters of both
  cases, the underscore, the dollar sign and the digits 1 to 9.
\<close>

definition identifier_char :: "char \<Rightarrow> bool" where
  "identifier_char c =
     (c \<in> set ''abcdefghijklmnopqrstuvwxyzABCDEFGHIJKLMNOPQRSTUVWXYZ_$123456789'')"

text \<open>
  \<^verbatim>\<open>name.match(/[a-z_$1-9]/gi)\<close>: with the flag \<^verbatim>\<open>g\<close> the array of all matches, each
  one character long, or \<^verbatim>\<open>null\<close> (here \<open>None\<close>) when there is no match.
\<close>

definition match_identifier_chars :: "string \<Rightarrow> string list option" where
  "match_identifier_chars name =
     (let found = map (\<lambda>c. [c]) (filter identifier_char name)
      in if found = [] then None else Some found)"

text \<open>
  \<^verbatim>\<open>getVariableName(name, options)\<close>. All patterns are compiled first (the \<^verbatim>\<open>map\<close>
  over the pairs); the first rule that matches decides; otherwise the leading digits are
  stripped and the convention applied. In the last branch \<^verbatim>\<open>.join('')\<close> is called on the
  result of \<^verbatim>\<open>match\<close>, which throws when that is \<^verbatim>\<open>null\<close>.
\<close>

definition getVariableName :: "Lodash \<Rightarrow> string \<Rightarrow> 'a LanguageOptions_scheme \<Rightarrow> js_error + string" where
  "getVariableName lib name options =
     (case those (map fst (predefinedVariableNames options)) of
        None \<Rightarrow> Inl SyntaxError
      | Some patterns \<Rightarrow>
          (case find (\<lambda>rule. test (fst rule) name)
                  (zip patterns (map snd (predefinedVariableNames options))) of
             Some rule \<Rightarrow> Inr (replace (fst rule) name (snd rule))
           | None \<Rightarrow>
               (let name = dropWhile is_digit name in
                case variableNamingConvention options of
                  CamelCase \<Rightarrow> Inr (camelCase lib name)
                | PascalCase \<Rightarrow> Inr (concat (map (upperFirst lib) (words lib name)))
                | SnakeCase \<Rightarrow> Inr (snakeCase lib name)
                | LowerCase \<Rightarrow> Inr (toLowerCase lib (concat (words lib name)))
                | NoConvention \<Rightarrow>
                    (case match_identifier_chars name of
                       None \<Rightarrow> Inl TypeError
                     | Some found \<Rightarrow> Inr (concat found)))))"


section \<open>The syntax tree (what babylon returns)\<close>

text \<open>
  A node's \<^verbatim>\<open>loc\<close> has a \<^verbatim>\<open>start\<close> and an \<^verbatim>\<open>end\<close>, each a line (counted from 1)
  and a column (counted from 0). Naturals suffice: babylon never gives a line below 1.
\<close>

record Position =
  line :: nat
  column :: nat

record SourceLocation =
  loc_start :: Position
  loc_end :: Position

text \<open>
  The specifiers of an import declaration: \<^verbatim>\<open>type\<close>, \<^verbatim>\<open>imported.name\<close> (only an
  \<^verbatim>\<open>ImportSpecifier\<close> has it), \<^verbatim>\<open>local.name\<close>, \<^verbatim>\<open>loc\<close> and the character offsets
  \<^verbatim>\<open>start\<close> and \<^verbatim>\<open>end\<close>.
\<close>

datatype SpecifierType = ImportDefaultSpecifier | ImportSpecifier | ImportNamespaceSpecifier

record Specifier =
  spec_type :: SpecifierType
  imported_name :: "string option"
  local_name :: string
  spec_loc :: SourceLocation
  spec_start :: nat
  spec_end :: nat

text \<open>
  The specifiers of an export declaration: \<^verbatim>\<open>exported.name\<close> and \<^verbatim>\<open>local.name\<close>, each
  \<open>None\<close> where the specifier has no such child (an \<^verbatim>\<open>ExportDefaultSpecifier\<close> and
  an \<^verbatim>\<open>ExportNamespaceSpecifier\<close> have no \<^verbatim>\<open>local\<close>).
\<close>

record ExportSpecifier =
  exported_name :: "string option"
  export_local_name :: "string option"

text \<open>
  The tagged union of nodes, with a constructor for every node type the code tells
  apart and three generic ones for the rest. Children are listed in the order of the
  node's properties.
  \<^item> \<open>StringLiteral value loc\<close>, \<open>Identifier name\<close>;
  \<^item> \<open>CallExpression callee arguments\<close>, \<open>MemberExpression object property\<close>,
    \<open>AssignmentExpression left right\<close>;
  \<^item> \<open>ObjectExpression properties\<close> with \<open>ObjectProperty key value\<close> (also an object
    method) and \<open>SpreadProperty argument\<close> (which has no key);
  \<^item> \<open>VariableDeclaration loc declarations\<close> with \<open>VariableDeclarator id init\<close>;
  \<^item> \<open>FunctionDeclaration id.name params body\<close>;
  \<^item> \<open>ExpressionStatement loc expression\<close>;
  \<^item> \<open>ImportDeclaration loc specifiers source.value source.loc\<close> (babylon's source is
    always a string literal);
  \<^item> \<open>ExportNamedDeclaration declaration specifiers source.value\<close>,
    \<open>ExportAllDeclaration source.value\<close>, \<open>ExportDefaultDeclaration declaration\<close>;
  \<^item> \<open>BlockLike type body\<close>: a node whose \<^verbatim>\<open>body\<close> is an array (a block statement,
    a class body);
  \<^item> \<open>WithBody type before body after\<close>: a node whose \<^verbatim>\<open>body\<close> is one node (a loop,
    a function expression, a class), with its other children before and after it;
  \<^item> \<open>OtherNode type children\<close>: any other node; it has no \<^verbatim>\<open>body\<close>,
    \<^verbatim>\<open>declaration\<close> or \<^verbatim>\<open>declarations\<close>.
\<close>

datatype node =
    StringLiteral string SourceLocation
  | Identifier string
  | CallExpression node "node list"
  | MemberExpression node node
  | AssignmentExpression node node
  | ObjectExpression "node list"
  | ObjectProperty node node
  | SpreadProperty node
  | VariableDeclaration SourceLocation "node list"
  | VariableDeclarator node "node option"
  | FunctionDeclaration string "node list" node
  | ExpressionStatement SourceLocation node
  | ImportDeclaration SourceLocation "Specifier list" string SourceLocation
  | ExportNamedDeclaration "node option" "ExportSpecifier list" "string option"
  | ExportAllDeclaration string
  | ExportDefaultDeclaration node
  | BlockLike string "node list"
  | WithBody string "node list" node "node list"
  | OtherNode string "node list"

text \<open>The parsed file: \<^verbatim>\<open>codeTree.program.body\<close>.\<close>

record File =
  program_body :: "node list"

text \<open>\<^verbatim>\<open>node.value\<close> as a string: \<open>None\<close> when the node is not a string literal.\<close>

fun string_value :: "node \<Rightarrow> string option" where
  "string_value (StringLiteral v l) = Some v"
| "string_value n = None"

text \<open>\<^verbatim>\<open>node.name\<close>: \<open>None\<close> (\<^verbatim>\<open>undefined\<close>) when the node is not an identifier.\<close>

fun identifier_name :: "node \<Rightarrow> string option" where
  "identifier_name (Identifier n) = Some n"
| "identifier_name n = None"

text \<open>The child nodes, in the order in which \<^verbatim>\<open>_.forEach(node, ...)\<close> reaches them.\<close>

fun children :: "node \<Rightarrow> node list" where
  "children (StringLiteral v l) = []"
| "children (Identifier n) = []"
| "children (CallExpression callee arguments) = callee # arguments"
| "children (MemberExpression object property) = [object, property]"
| "children (AssignmentExpression left right) = [left, right]"
| "children (ObjectExpression properties) = properties"
| "children (ObjectProperty k v) = [k, v]"
| "children (SpreadProperty argument) = [argument]"
| "children (VariableDeclaration l declarations) = declarations"
| "children (VariableDeclarator i init) = i # (case init of None \<Rightarrow> [] | Some e \<Rightarrow> [e])"
| "children (FunctionDeclaration n params body) = params @ [body]"
| "children (ExpressionStatement l expression) = [expression]"
| "children (ImportDeclaration l specifiers source sl) = []"
| "children (ExportNamedDeclaration declaration specifiers source) =
     (case declaration of None \<Rightarrow> [] | Some d \<Rightarrow> [d])"
| "children (ExportAllDeclaration source) = []"
| "children (ExportDefaultDeclaration declaration) = [declaration]"
| "children (BlockLike t body) = body"
| "children (WithBody t before body after) = before @ [body] @ after"
| "children (OtherNode t cs) = cs"


section \<open>The templates of \<^verbatim>\<open>_.isMatch\<close>\<close>

text \<open>
  \<^verbatim>\<open>_.isMatch(node, template)\<close> is a partial deep comparison: every property of the
  template must be matched by the node, and an array of the template is matched when each
  of its elements matches some element of the node's array. One predicate per template.
\<close>

text \<open>\<^verbatim>\<open>EXPORT_DEFAULT = { type: 'ExportDefaultDeclaration' }\<close>\<close>

fun EXPORT_DEFAULT :: "node \<Rightarrow> bool" where
  "EXPORT_DEFAULT (ExportDefaultDeclaration d) = True"
| "EXPORT_DEFAULT n = False"

text \<open>
  \<^verbatim>\<open>MODULE_EXPORTS\<close>: an expression statement whose expression is an assignment to the
  member expression \<^verbatim>\<open>module.exports\<close>.
\<close>

fun MODULE_EXPORTS :: "node \<Rightarrow> bool" where
  "MODULE_EXPORTS (ExpressionStatement l
      (AssignmentExpression (MemberExpression (Identifier ob) (Identifier pr)) right)) =
     (ob = ''module'' \<and> pr = ''exports'')"
| "MODULE_EXPORTS n = False"

text \<open>
  \<^verbatim>\<open>MODULE_REQUIRE\<close>: a variable declarator whose \<^verbatim>\<open>init\<close> is a call of the identifier
  \<^verbatim>\<open>require\<close> with a string literal among its arguments.
\<close>

fun MODULE_REQUIRE :: "node \<Rightarrow> bool" where
  "MODULE_REQUIRE (VariableDeclarator i (Some (CallExpression (Identifier callee) arguments))) =
     (callee = ''require'' \<and> list_ex (\<lambda>a. string_value a \<noteq> None) arguments)"
| "MODULE_REQUIRE n = False"

text \<open>
  \<^verbatim>\<open>MODULE_REQUIRE_IMMEDIATE\<close>: an expression statement whose expression is a call of the
  identifier \<^verbatim>\<open>require\<close>.
\<close>

fun MODULE_REQUIRE_IMMEDIATE :: "node \<Rightarrow> bool" where
  "MODULE_REQUIRE_IMMEDIATE (ExpressionStatement l (CallExpression (Identifier callee) arguments)) =
     (callee = ''require'')"
| "MODULE_REQUIRE_IMMEDIATE n = False"

text \<open>
  \<^verbatim>\<open>IMPORT_EVERYTHING\<close>: an import declaration with a namespace specifier among its
  specifiers.
\<close>

fun IMPORT_EVERYTHING :: "node \<Rightarrow> bool" where
  "IMPORT_EVERYTHING (ImportDeclaration l specifiers source sl) =
     list_ex (\<lambda>s. spec_type s = ImportNamespaceSpecifier) specifiers"
| "IMPORT_EVERYTHING n = False"


section \<open>The host: file system, paths, parser, workspace\<close>

text \<open>
  \<^verbatim>\<open>FileInfo\<close> is a class of this repository whose file is not among the sources; the
  code reads these fields of it. Its constructor and its \<^verbatim>\<open>getRelativePath\<close> are
  parameters of the model, with node's \<^verbatim>\<open>fs\<close> and \<^verbatim>\<open>path\<close> modules, babylon's parser,
  the workspace services of the editor and the two functions of \<^verbatim>\<open>global.ts\<close>
  (\<^verbatim>\<open>getSortablePath\<close>, \<^verbatim>\<open>findFilesRoughly\<close>), which is not among the sources either.
\<close>

record FileInfo =
  fullPath :: string
  fullPathForPOSIX :: string
  fileNameWithExtension :: string
  fileNameWithoutExtension :: string
  fileExtensionWithoutLeadingDot :: string
  directoryName :: string
  directoryPath :: string

text \<open>
  The document of the editor, as far as the code reads it: \<^verbatim>\<open>languageId\<close>,
  \<^verbatim>\<open>fileName\<close>, the text and whether its line ending is CRLF. The text is a list of
  lines (without their line endings), the way positions address it.
\<close>

record TextDocument =
  languageId :: string
  fileName :: string
  doc_lines :: "string list"
  eol_crlf :: bool

text \<open>
  What the code reads of a \<^verbatim>\<open>package.json\<close> that \<^verbatim>\<open>require\<close> has loaded: the keys of
  \<^verbatim>\<open>devDependencies\<close> and of \<^verbatim>\<open>dependencies\<close> (none when the section is missing) and the
  \<^verbatim>\<open>version\<close>.
\<close>

record PackageJson =
  devDependencies :: "string list"
  dependencies :: "string list"
  version :: "string option"

record Host =
  newFileInfo :: "string \<Rightarrow> FileInfo"
  getRelativePath :: "FileInfo \<Rightarrow> string \<Rightarrow> string"
  getSortablePath :: "FileInfo \<Rightarrow> FileInfo \<Rightarrow> string"
  findFilesRoughly :: "string \<Rightarrow> string \<Rightarrow> string list"
  existsSync :: "string \<Rightarrow> bool"
  readFileSync :: "string \<Rightarrow> string option"
  babylon_parse :: "string \<Rightarrow> js_error + File"
  requireJson :: "string \<Rightarrow> js_error + PackageJson"
  path_resolve :: "string list \<Rightarrow> string"
  path_join :: "string list \<Rightarrow> string"
  path_dirname :: "string \<Rightarrow> string"
  path_extname :: "string \<Rightarrow> string"
  path_sep :: char
  findFiles :: "string list"
  getWorkspaceFolder :: "string \<Rightarrow> string"
  lodash :: Lodash
  stack_depth :: nat
  eslint_autofix :: "(TextDocument \<Rightarrow> TextDocument) option"

text \<open>
  \<^verbatim>\<open>JavaScript.parse(code)\<close>: babylon's result, or \<^verbatim>\<open>null\<close> (here \<open>None\<close>) when babylon
  throws, whatever it throws.
\<close>

definition parse :: "Host \<Rightarrow> string \<Rightarrow> File option" where
  "parse host code = (case babylon_parse host code of Inl ex \<Rightarrow> None | Inr tree \<Rightarrow> Some tree)"

text \<open>\<^verbatim>\<open>s.split(c)\<close> and \<^verbatim>\<open>parts.join(sep)\<close>.\<close>

fun split_on :: "char \<Rightarrow> string \<Rightarrow> string list" where
  "split_on c [] = [[]]"
| "split_on c (x # xs) =
     (if x = c then [] # split_on c xs
      else (case split_on c xs of [] \<Rightarrow> [[x]] | y # ys \<Rightarrow> (x # y) # ys))"

fun join_with :: "string \<Rightarrow> string list \<Rightarrow> string" where
  "join_with sep [] = []"
| "join_with sep [x] = x"
| "join_with sep (x # y # ys) = x @ sep @ join_with sep (y # ys)"

text \<open>\<^verbatim>\<open>_.trimEnd(s, '/')\<close> removes every trailing slash; \<^verbatim>\<open>_.trimStart(s, '.')\<close> every leading dot.\<close>

definition trimEnd :: "string \<Rightarrow> char \<Rightarrow> string" where
  "trimEnd s c = rev (dropWhile (\<lambda>x. x = c) (rev s))"

definition trimStart :: "string \<Rightarrow> char \<Rightarrow> string" where
  "trimStart s c = dropWhile (\<lambda>x. x = c) s"


section \<open>Existing imports (getExistingImports)\<close>

text \<open>
  \<^verbatim>\<open>ImportStatementForReadOnly\<close>: the node, the path and the \<^verbatim>\<open>start\<close> and \<^verbatim>\<open>end\<close>
  copied from a \<^verbatim>\<open>loc\<close>. The path is \<open>None\<close> when the value read is not a string
  (the first argument of the call is not a string literal).
\<close>

record ImportStatementForReadOnly =
  node_of :: node
  path :: "string option"
  start_pos :: Position
  end_pos :: Position

text \<open>
  The first group: \<^verbatim>\<open>filter\<close> keeps the import declarations (their source is a string
  literal), \<^verbatim>\<open>map\<close> records the declaration, its \<^verbatim>\<open>loc\<close> and the trimmed source.
\<close>

fun import_declaration_stubs :: "node \<Rightarrow> ImportStatementForReadOnly list" where
  "import_declaration_stubs (ImportDeclaration l specifiers source sl) =
     [\<lparr>node_of = ImportDeclaration l specifiers source sl,
       path = Some (trimEnd source CHR ''/''),
       start_pos = loc_start l, end_pos = loc_end l\<rparr>]"
| "import_declaration_stubs n = []"

text \<open>
  The second group: for every variable declaration, the declarators that match
  \<^verbatim>\<open>MODULE_REQUIRE\<close>, each with the \<^verbatim>\<open>loc\<close> of the whole declaration and the value of
  the first argument of the call, untrimmed.
\<close>

fun first_argument_value :: "node \<Rightarrow> string option" where
  "first_argument_value (CallExpression callee (a # arguments)) = string_value a"
| "first_argument_value n = None"

fun declarator_init :: "node \<Rightarrow> node option" where
  "declarator_init (VariableDeclarator i init) = init"
| "declarator_init n = None"

fun require_declaration_stubs :: "node \<Rightarrow> ImportStatementForReadOnly list" where
  "require_declaration_stubs (VariableDeclaration l declarations) =
     map (\<lambda>stub. \<lparr>node_of = stub,
                   path = (case declarator_init stub of None \<Rightarrow> None
                           | Some init \<Rightarrow> first_argument_value init),
                   start_pos = loc_start l, end_pos = loc_end l\<rparr>)
         (filter MODULE_REQUIRE declarations)"
| "require_declaration_stubs n = []"

text \<open>
  The third group: the expression statements that match \<^verbatim>\<open>MODULE_REQUIRE_IMMEDIATE\<close>
  and call with exactly one argument, with their own \<^verbatim>\<open>loc\<close> and the value of that
  argument, untrimmed.
\<close>

fun require_immediate_stubs :: "node \<Rightarrow> ImportStatementForReadOnly list" where
  "require_immediate_stubs (ExpressionStatement l (CallExpression callee arguments)) =
     (if MODULE_REQUIRE_IMMEDIATE (ExpressionStatement l (CallExpression callee arguments))
         \<and> length arguments = 1
      then [\<lparr>node_of = ExpressionStatement l (CallExpression callee arguments),
             path = first_argument_value (CallExpression callee arguments),
             start_pos = loc_start l, end_pos = loc_end l\<rparr>]
      else [])"
| "require_immediate_stubs n = []"

text \<open>
  \<^verbatim>\<open>getExistingImports(codeTree)\<close>: nothing for a \<^verbatim>\<open>null\<close> tree; otherwise the three
  groups one after the other, each in the order of the program body.
\<close>

definition getExistingImports :: "File option \<Rightarrow> ImportStatementForReadOnly list" where
  "getExistingImports codeTree =
     (case codeTree of
        None \<Rightarrow> []
      | Some tree \<Rightarrow>
          concat (map import_declaration_stubs (program_body tree))
          @ concat (map require_declaration_stubs (program_body tree))
          @ concat (map require_immediate_stubs (program_body tree)))"

text \<open>\<^verbatim>\<open>getDuplicateImport(existingImports, path)\<close>: the first entry with that path.\<close>

definition getDuplicateImport :: "ImportStatementForReadOnly list \<Rightarrow> string \<Rightarrow> ImportStatementForReadOnly option" where
  "getDuplicateImport existingImports p = find (\<lambda>stub. path stub = Some p) existingImports"

text \<open>
  The specification's words for the recorded path, to compare the code with: the literal
  with exactly one trailing slash trimmed.
\<close>

definition trim_one_trailing_slash :: "string \<Rightarrow> string" where
  "trim_one_trailing_slash s = (if s \<noteq> [] \<and> last s = CHR ''/'' then butlast s else s)"


section \<open>Exported names (getExportedVariables)\<close>

text \<open>
  \<^verbatim>\<open>getFilePathWithExtension(expectedFileExtension, ...path)\<close>: the resolved path when a
  file exists there, else the resolved path with the extension appended.
\<close>

definition getFilePathWithExtension :: "Host \<Rightarrow> string \<Rightarrow> string list \<Rightarrow> string" where
  "getFilePathWithExtension host expectedFileExtension paths =
     (let filePath = path_resolve host paths
      in if existsSync host filePath then filePath
         else filePath @ ''.'' @ expectedFileExtension)"

text \<open>
  A \<^verbatim>\<open>map\<close> whose callback may throw: the first error ends it, as the exception would.
\<close>

fun collect :: "('e + 'a) list \<Rightarrow> 'e + 'a list" where
  "collect [] = Inr []"
| "collect (Inl e # rs) = Inl e"
| "collect (Inr v # rs) = (case collect rs of Inl e \<Rightarrow> Inl e | Inr vs \<Rightarrow> Inr (v # vs))"

text \<open>
  The names a callback returns are strings or \<^verbatim>\<open>undefined\<close> (\<open>None\<close>): \<^verbatim>\<open>.name\<close> of a
  node that is not an identifier is \<^verbatim>\<open>undefined\<close>, and reading \<^verbatim>\<open>.name\<close> of a missing
  child throws.
  \<^item> \<^verbatim>\<open>item.id.name\<close> of a declarator;
  \<^item> \<^verbatim>\<open>item.exported ? item.exported.name : item.local.name\<close> of an export specifier;
  \<^item> \<^verbatim>\<open>item.key.name\<close> of a property of an object expression (a spread property has
    no key).
\<close>

fun declarator_name :: "node \<Rightarrow> js_error + string option" where
  "declarator_name (VariableDeclarator i init) = Inr (identifier_name i)"
| "declarator_name n = Inl TypeError"

definition specifier_name :: "ExportSpecifier \<Rightarrow> js_error + string option" where
  "specifier_name item =
     (case exported_name item of
        Some n \<Rightarrow> Inr (Some n)
      | None \<Rightarrow> (case export_local_name item of Some n \<Rightarrow> Inr (Some n) | None \<Rightarrow> Inl TypeError))"

fun property_key_name :: "node \<Rightarrow> js_error + string option" where
  "property_key_name (ObjectProperty k v) = Inr (identifier_name k)"
| "property_key_name n = Inl TypeError"

text \<open>\<^verbatim>\<open>node.expression.right\<close> of an expression statement that is an assignment.\<close>

fun assignment_right :: "node \<Rightarrow> node option" where
  "assignment_right (ExpressionStatement l (AssignmentExpression left right)) = Some right"
| "assignment_right n = None"

fun object_properties :: "node \<Rightarrow> node list option" where
  "object_properties (ObjectExpression properties) = Some properties"
| "object_properties n = None"

text \<open>
  The callback of the \<^verbatim>\<open>map\<close> over the program body. It returns one name, an array of
  names, or \<^verbatim>\<open>undefined\<close>; \<^verbatim>\<open>flatten\<close> makes a list of each, so the model returns the list:
  one element for a single value, \<^verbatim>\<open>undefined\<close> included. \<open>again\<close> is the recursive call
  for a star re-export.
\<close>

fun node_exports :: "(string \<Rightarrow> js_error + string list) \<Rightarrow> Host \<Rightarrow> string \<Rightarrow> string \<Rightarrow> node
    \<Rightarrow> js_error + string option list" where
  "node_exports again host fileExtn filePath (ExportNamedDeclaration declaration specifiers source) =
     (case declaration of
        Some (FunctionDeclaration name params body) \<Rightarrow> Inr [Some name]
      | Some (VariableDeclaration l declarations) \<Rightarrow> collect (map declarator_name declarations)
      | _ \<Rightarrow> collect (map specifier_name specifiers))"
| "node_exports again host fileExtn filePath (ExportAllDeclaration source) =
     (if source \<noteq> []
      then (case again (getFilePathWithExtension host fileExtn [filePath, source]) of
              Inl ex \<Rightarrow> Inl ex
            | Inr names \<Rightarrow> Inr (map Some names))
      else Inr [None])"
| "node_exports again host fileExtn filePath (ExpressionStatement l expression) =
     (if MODULE_EXPORTS (ExpressionStatement l expression)
      then (case assignment_right (ExpressionStatement l expression) of
              None \<Rightarrow> Inr [None]
            | Some right \<Rightarrow>
                (case object_properties right of
                   None \<Rightarrow> Inr [None]
                 | Some properties \<Rightarrow> collect (map property_key_name properties)))
      else Inr [None])"
| "node_exports again host fileExtn filePath n = Inr [None]"

text \<open>\<^verbatim>\<open>_.compact\<close> drops the falsy values: here \<^verbatim>\<open>undefined\<close> and the empty string.\<close>

definition compact :: "string option list \<Rightarrow> string list" where
  "compact names =
     List.map_filter (\<lambda>name. case name of None \<Rightarrow> None
                              | Some n \<Rightarrow> if n = [] then None else Some n) names"

text \<open>
  \<^verbatim>\<open>getExportedVariables(filePath)\<close>. The function calls itself for every star re-export,
  and a cycle of such re-exports recurses until the call stack is exhausted; the first
  argument is the number of calls the stack still holds, and a call beyond it throws
  \<^verbatim>\<open>RangeError\<close>. Everything thrown inside the \<^verbatim>\<open>try\<close> (a missing file, a \<^verbatim>\<open>null\<close> tree,
  a callback that throws, the \<^verbatim>\<open>RangeError\<close> of the inner call) is caught and the result
  is then the empty array.
\<close>

fun getExportedVariables :: "nat \<Rightarrow> Host \<Rightarrow> string \<Rightarrow> js_error + string list" where
  "getExportedVariables 0 host filePath = Inl RangeError"
| "getExportedVariables (Suc depth) host filePath =
     (let fileExtn = trimStart (path_extname host filePath) CHR ''.'' in
      case readFileSync host filePath of
        None \<Rightarrow> Inr []
      | Some code \<Rightarrow>
          (case parse host code of
             None \<Rightarrow> Inr []
           | Some codeTree \<Rightarrow>
               (case collect (map (node_exports (\<lambda>p. getExportedVariables depth host p)
                                      host fileExtn filePath)
                                  (program_body codeTree)) of
                  Inl ex \<Rightarrow> Inr []
                | Inr names \<Rightarrow>
                    Inr (filter (\<lambda>name. name \<noteq> ''default'') (compact (concat names))))))"


section \<open>Candidates and the candidate caches (class JavaScript)\<close>

text \<open>
  How a call ends: it returns a value, it throws, or it never returns.
\<close>

datatype 'a outcome = Returned 'a | Thrown js_error | Diverged

text \<open>
  The three regular expressions of the class. \<^verbatim>\<open>WORKING_LANGUAGE = /^javascript(react)?/i\<close>
  tests for the prefix \<^verbatim>\<open>javascript\<close> in any case. \<^verbatim>\<open>WORKING_EXTENSION\<close> is \<^verbatim>\<open>/^jsx?$/\<close>,
  or \<^verbatim>\<open>/^(j|t)sx?$/\<close> when TypeScript files are allowed. \<^verbatim>\<open>TYPESCRIPT_EXTENSION\<close> is
  \<^verbatim>\<open>/^tsx?$/\<close>.
\<close>

definition ascii_lower :: "char \<Rightarrow> char" where
  "ascii_lower c =
     (case map_of (zip ''ABCDEFGHIJKLMNOPQRSTUVWXYZ'' ''abcdefghijklmnopqrstuvwxyz'') c of
        None \<Rightarrow> c | Some l \<Rightarrow> l)"

definition WORKING_LANGUAGE :: "string \<Rightarrow> bool" where
  "WORKING_LANGUAGE l = (map ascii_lower (take 10 l) = ''javascript'')"

definition WORKING_EXTENSION :: "bool \<Rightarrow> string \<Rightarrow> bool" where
  "WORKING_EXTENSION allowTypeScript e =
     (e = ''js'' \<or> e = ''jsx'' \<or> (allowTypeScript \<and> (e = ''ts'' \<or> e = ''tsx'')))"

definition TYPESCRIPT_EXTENSION :: "string \<Rightarrow> bool" where
  "TYPESCRIPT_EXTENSION e = (e = ''ts'' \<or> e = ''tsx'')"

text \<open>
  \<^verbatim>\<open>FileItem\<close>: an item with its options, its extension pattern, the \<^verbatim>\<open>FileInfo\<close> of
  its file and the two sort keys; \<^verbatim>\<open>sortablePath\<close> is \<^verbatim>\<open>undefined\<close> until \<^verbatim>\<open>getItems\<close>
  assigns it. \<^verbatim>\<open>NodeItem\<close>: an item with the binding name and the path of a package.
\<close>

record FileItem = Item +
  file_options :: LanguageOptions
  extension :: "string \<Rightarrow> bool"
  fileInfo :: FileInfo
  sortablePath :: "string option"
  sortableName :: string

record NodeItem = Item +
  node_options :: LanguageOptions
  node_name :: string
  node_path :: string

datatype AnyItem = FileCandidate FileItem | NodeCandidate NodeItem

text \<open>\<^verbatim>\<open>_.trim(s, c)\<close> and \<^verbatim>\<open>s.replace(/\\/g, '/')\<close>.\<close>

definition trim :: "string \<Rightarrow> char \<Rightarrow> string" where
  "trim s c = trimEnd (trimStart s c) c"

definition slashes :: "string \<Rightarrow> string" where
  "slashes s = map (\<lambda>c. if c = CHR 0x5C then CHR ''/'' else c) s"

text \<open>
  \<^verbatim>\<open>checkIfIndexPath(fileNameWithExtension)\<close>: the name has exactly two parts around
  one dot, the first is \<^verbatim>\<open>index\<close> and the second passes the extension pattern.
\<close>

definition checkIfIndexPath :: "(string \<Rightarrow> bool) \<Rightarrow> string \<Rightarrow> bool" where
  "checkIfIndexPath ext fileNameWithExt =
     (case split_on CHR ''.'' fileNameWithExt of
        [first, second] \<Rightarrow> first = ''index'' \<and> ext second
      | _ \<Rightarrow> False)"

text \<open>The constructor of \<^verbatim>\<open>FileItem\<close>.\<close>

definition new_FileItem :: "Host \<Rightarrow> string \<Rightarrow> string \<Rightarrow> LanguageOptions \<Rightarrow> (string \<Rightarrow> bool) \<Rightarrow> FileItem" where
  "new_FileItem host filePath rootPath options ext =
     (let info = newFileInfo host filePath;
          isIndex = checkIfIndexPath ext (fileNameWithExtension info);
          relative = drop (length rootPath) (fullPath info);
          directory = slashes (trim (path_dirname host relative) (path_sep host))
      in \<lparr>item_id = fullPath info,
          label = (if indexFile options \<and> isIndex then directoryName info
                   else if fileExtension options = False
                           \<and> ext (fileExtensionWithoutLeadingDot info)
                        then fileNameWithoutExtension info
                        else fileNameWithExtension info),
          description = (if indexFile options \<and> isIndex
                         then slashes (trim relative (path_sep host)) else directory),
          file_options = options,
          extension = ext,
          fileInfo = info,
          sortablePath = None,
          sortableName = (if isIndex then ''!''
                          else toLowerCase (lodash host) (fileNameWithExtension info))\<rparr>)"

text \<open>
  The constructor of \<^verbatim>\<open>NodeItem\<close>. It throws when \<^verbatim>\<open>getVariableName\<close> does; the
  version is read from the package's own \<^verbatim>\<open>package.json\<close> inside a \<^verbatim>\<open>try\<close> with an
  empty \<^verbatim>\<open>catch\<close>.
\<close>

definition new_NodeItem :: "Host \<Rightarrow> string \<Rightarrow> string \<Rightarrow> LanguageOptions \<Rightarrow> js_error + NodeItem" where
  "new_NodeItem host name rootPath options =
     (case getVariableName (lodash host) name options of
        Inl ex \<Rightarrow> Inl ex
      | Inr variable \<Rightarrow>
          Inr \<lparr>item_id = ''node://'' @ name,
               label = name,
               description =
                 (case requireJson host
                         (path_join host [rootPath, ''node_modules'', name, ''package.json'']) of
                    Inl ex \<Rightarrow> []
                  | Inr packageJson \<Rightarrow>
                      (case version packageJson of
                         None \<Rightarrow> []
                       | Some v \<Rightarrow> if v = [] then [] else ''v'' @ v)),
               node_options = options,
               node_name = variable,
               node_path = name\<rparr>)"

text \<open>
  The state of an instance of the class \<^verbatim>\<open>JavaScript\<close>: the configuration, the flag
  that the constructor derives from it, and the two caches, \<open>None\<close> while
  \<^verbatim>\<open>undefined\<close> or \<^verbatim>\<open>null\<close>.
\<close>

record JavaScript =
  baseConfig :: LanguageOptions
  allowTypeScriptFiles :: bool
  fileItemCache :: "FileItem list option"
  nodeItemCache :: "NodeItem list option"

definition new_JavaScript :: "LanguageOptions \<Rightarrow> bool \<Rightarrow> JavaScript" where
  "new_JavaScript config allowTypeScript =
     \<lparr>baseConfig = config, allowTypeScriptFiles = allowTypeScript,
      fileItemCache = None, nodeItemCache = None\<rparr>"

text \<open>
  The loop that looks for the nearest \<^verbatim>\<open>package.json\<close>. The source keeps the path as a
  string and in every round splits it at the separator, drops the last part and joins
  the rest; the model keeps the list of parts. At the empty path the round changes
  nothing, so the loop never ends unless its condition is false there: \<open>None\<close>.
\<close>

function find_package_json :: "Host \<Rightarrow> string \<Rightarrow> string list \<Rightarrow> string option" where
  "find_package_json host rootPath pathList =
     (let packageJsonPath = join_with [path_sep host] pathList
      in if packageJsonPath \<noteq> rootPath
            \<and> existsSync host (path_join host [packageJsonPath, ''package.json'']) = False
         then (if pathList = [] then None
               else find_package_json host rootPath (butlast pathList))
         else Some packageJsonPath)"
  by pat_completeness auto
termination
  by (relation "measure (\<lambda>(host, rootPath, pathList). length pathList)") auto

declare find_package_json.simps [simp del]

text \<open>
  The node items of a \<^verbatim>\<open>package.json\<close>: one per key of \<^verbatim>\<open>devDependencies\<close> and of
  \<^verbatim>\<open>dependencies\<close>, sorted by the binding name.
\<close>

definition build_node_items :: "Host \<Rightarrow> string \<Rightarrow> string \<Rightarrow> LanguageOptions \<Rightarrow> js_error + NodeItem list" where
  "build_node_items host packageJsonPath rootPath options =
     (case requireJson host packageJsonPath of
        Inl ex \<Rightarrow> Inl ex
      | Inr packageJson \<Rightarrow>
          (case collect (map (\<lambda>name. new_NodeItem host name rootPath options)
                             (devDependencies packageJson @ dependencies packageJson)) of
             Inl ex \<Rightarrow> Inl ex
           | Inr nodeItems \<Rightarrow> Inr (sort_key node_name nodeItems)))"

text \<open>
  \<^verbatim>\<open>getItems(document)\<close>. The file cache is built from the listing of the workspace when
  there is none. The chain then works on the cached objects themselves: it rejects the
  item of the current file, keeps what the two filters let through, and assigns
  \<^verbatim>\<open>sortablePath\<close> to each item kept, which is therefore updated in the cache too. The
  result is sorted by path key and name key and the node items are appended.
\<close>

definition compile_filter_rule :: "RegExp option \<times> RegExp option \<Rightarrow> (RegExp \<times> RegExp) option" where
  "compile_filter_rule pair =
     (case pair of
        (Some documentPathPattern, Some filePathPattern) \<Rightarrow>
          Some (documentPathPattern, filePathPattern)
      | _ \<Rightarrow> None)"

text \<open>The parts of \<^verbatim>\<open>getItems\<close>, in the order of the source.\<close>

text \<open>The file cache of the instance, or the one built from the listing.\<close>

definition cached_or_listed :: "Host \<Rightarrow> JavaScript \<Rightarrow> string \<Rightarrow> FileItem list" where
  "cached_or_listed host this rootPath =
     (case fileItemCache this of
        None \<Rightarrow> map (\<lambda>fileLink. new_FileItem host fileLink rootPath (baseConfig this)
                            (WORKING_EXTENSION (allowTypeScriptFiles this)))
                   (findFiles host)
      | Some items \<Rightarrow> items)"

text \<open>The \<^verbatim>\<open>reject\<close> and the two \<^verbatim>\<open>filter\<close>s of the chain, as one predicate.\<close>

definition kept :: "JavaScript \<Rightarrow> FileInfo \<Rightarrow> (RegExp \<times> RegExp) option \<Rightarrow> FileItem \<Rightarrow> bool" where
  "kept this documentFileInfo fileFilterRule item =
     (fullPath (fileInfo item) \<noteq> fullPath documentFileInfo
      \<and> (allowTypeScriptFiles this
           \<or> \<not> TYPESCRIPT_EXTENSION (fileExtensionWithoutLeadingDot (fileInfo item)))
      \<and> (case fileFilterRule of
            Some rule \<Rightarrow> test (snd rule) (fullPathForPOSIX (fileInfo item))
          | None \<Rightarrow> True))"

text \<open>The \<^verbatim>\<open>forEach\<close> of the chain.\<close>

definition assign_sortablePath :: "Host \<Rightarrow> FileInfo \<Rightarrow> FileItem \<Rightarrow> FileItem" where
  "assign_sortablePath host documentFileInfo item =
     item\<lparr>sortablePath := Some (getSortablePath host (fileInfo item) documentFileInfo)\<rparr>"

text \<open>
  \<^verbatim>\<open>_.sortBy\<close> with the two keys; the first is the \<^verbatim>\<open>sortablePath\<close> just assigned.
\<close>

definition sort_file_items :: "Host \<Rightarrow> FileInfo \<Rightarrow> FileItem list \<Rightarrow> FileItem list" where
  "sort_file_items host documentFileInfo items =
     sort_key (\<lambda>item. (getSortablePath host (fileInfo item) documentFileInfo, sortableName item))
       items"

text \<open>
  The node cache after the request: built when there is none and the \<^verbatim>\<open>package.json\<close>
  exists, which may throw.
\<close>

definition node_cache_step :: "Host \<Rightarrow> JavaScript \<Rightarrow> string \<Rightarrow> string \<Rightarrow> js_error + NodeItem list option" where
  "node_cache_step host this rootPath packageJsonPath =
     (if nodeItemCache this = None \<and> existsSync host packageJsonPath
      then (case build_node_items host packageJsonPath rootPath (baseConfig this) of
              Inl ex \<Rightarrow> Inl ex
            | Inr nodeItems \<Rightarrow> Inr (Some nodeItems))
      else Inr (nodeItemCache this))"

definition getItems :: "Host \<Rightarrow> JavaScript \<Rightarrow> TextDocument \<Rightarrow> JavaScript \<times> AnyItem list option outcome" where
  "getItems host this document =
     (if WORKING_LANGUAGE (languageId document) = False then (this, Returned None)
      else
        let documentFileInfo = newFileInfo host (fileName document);
            rootPath = getWorkspaceFolder host (fileName document);
            cache = cached_or_listed host this rootPath
        in case those (map compile_filter_rule (filteredFileList (baseConfig this))) of
             None \<Rightarrow> (this\<lparr>fileItemCache := Some cache\<rparr>, Thrown SyntaxError)
           | Some rules \<Rightarrow>
               let fileFilterRule =
                     find (\<lambda>rule. test (fst rule) (fullPathForPOSIX documentFileInfo)) rules;
                   this1 = this\<lparr>fileItemCache :=
                     Some (map (\<lambda>item. if kept this documentFileInfo fileFilterRule item
                                        then assign_sortablePath host documentFileInfo item
                                        else item) cache)\<rparr>;
                   items = sort_file_items host documentFileInfo
                             (map (assign_sortablePath host documentFileInfo)
                                (filter (kept this documentFileInfo fileFilterRule) cache))
               in case find_package_json host rootPath
                         (split_on (path_sep host)
                            (trimEnd (path_dirname host (fileName document)) (path_sep host))) of
                    None \<Rightarrow> (this1, Diverged)
                  | Some directory \<Rightarrow>
                      (case node_cache_step host this1 rootPath
                              (path_join host [directory, ''package.json'']) of
                         Inl ex \<Rightarrow> (this1, Thrown ex)
                       | Inr nodeItems \<Rightarrow>
                           (this1\<lparr>nodeItemCache := nodeItems\<rparr>,
                            Returned (Some (map FileCandidate items
                               @ map NodeCandidate (case nodeItems of None \<Rightarrow> []
                                                    | Some ns \<Rightarrow> ns))))))"

text \<open>
  \<^verbatim>\<open>addItem(filePath)\<close> pushes a new item when there is a cache. \<^verbatim>\<open>cutItem(filePath)\<close>
  removes the first cached item with that full path. \<^verbatim>\<open>reset()\<close> drops both caches.
\<close>

definition addItem :: "Host \<Rightarrow> JavaScript \<Rightarrow> string \<Rightarrow> JavaScript" where
  "addItem host this filePath =
     (case fileItemCache this of
        None \<Rightarrow> this
      | Some cache \<Rightarrow>
          this\<lparr>fileItemCache :=
            Some (cache @ [new_FileItem host filePath (getWorkspaceFolder host filePath)
                             (baseConfig this) (WORKING_EXTENSION (allowTypeScriptFiles this))])\<rparr>)"

fun remove_first :: "('a \<Rightarrow> bool) \<Rightarrow> 'a list \<Rightarrow> 'a list" where
  "remove_first P [] = []"
| "remove_first P (x # xs) = (if P x then xs else x # remove_first P xs)"

definition cutItem :: "Host \<Rightarrow> JavaScript \<Rightarrow> string \<Rightarrow> JavaScript" where
  "cutItem host this filePath =
     (case fileItemCache this of
        None \<Rightarrow> this
      | Some cache \<Rightarrow>
          this\<lparr>fileItemCache :=
            Some (remove_first (\<lambda>item. fullPath (fileInfo item) = fullPath (newFileInfo host filePath))
                    cache)\<rparr>)"

definition reset :: "JavaScript \<Rightarrow> JavaScript" where
  "reset this = this\<lparr>fileItemCache := None, nodeItemCache := None\<rparr>"

text \<open>
  The states of an instance that the four operations reach from a new instance, for
  any requesting documents and any created and deleted paths.
\<close>

inductive reachable :: "Host \<Rightarrow> JavaScript \<Rightarrow> bool" for host where
  reach_new: "reachable host (new_JavaScript config allowTypeScript)"
| reach_getItems: "reachable host this \<Longrightarrow> reachable host (fst (getItems host this document))"
| reach_addItem: "reachable host this \<Longrightarrow> reachable host (addItem host this filePath)"
| reach_cutItem: "reachable host this \<Longrightarrow> reachable host (cutItem host this filePath)"
| reach_reset: "reachable host this \<Longrightarrow> reachable host (reset this)"


text \<open>
  The invariant of the file cache: every cached item was made by the constructor, so
  its id is its full path.
\<close>

definition ids_are_paths :: "JavaScript \<Rightarrow> bool" where
  "ids_are_paths this =
     (case fileItemCache this of
        None \<Rightarrow> True
      | Some cache \<Rightarrow> map item_id cache = map (\<lambda>item. fullPath (fileInfo item)) cache)"


section \<open>The editor: positions, ranges, the document and what the user answers\<close>

text \<open>
  A position of the editor is a line and a character, both counted from 0; a range is
  two positions, which the constructor puts in order.
\<close>

record EditorPosition =
  pos_line :: nat
  pos_character :: nat

record Range =
  range_start :: EditorPosition
  range_end :: EditorPosition

definition new_Position :: "nat \<Rightarrow> nat \<Rightarrow> EditorPosition" where
  "new_Position l c = \<lparr>pos_line = l, pos_character = c\<rparr>"

definition position_le :: "EditorPosition \<Rightarrow> EditorPosition \<Rightarrow> bool" where
  "position_le p q =
     (pos_line p < pos_line q \<or> (pos_line p = pos_line q \<and> pos_character p \<le> pos_character q))"

definition new_Range :: "EditorPosition \<Rightarrow> EditorPosition \<Rightarrow> Range" where
  "new_Range p q =
     (if position_le p q then \<lparr>range_start = p, range_end = q\<rparr>
      else \<lparr>range_start = q, range_end = p\<rparr>)"

text \<open>
  The document validates a position before it uses it: a line beyond the last one
  becomes the end of the last line, a character beyond the end of its line the end of
  that line. A document always has at least one line.
\<close>

definition validatePosition :: "string list \<Rightarrow> EditorPosition \<Rightarrow> EditorPosition" where
  "validatePosition ls p =
     (if pos_line p \<ge> length ls
      then \<lparr>pos_line = length ls - 1, pos_character = length (last ls)\<rparr>
      else \<lparr>pos_line = pos_line p,
            pos_character = min (pos_character p) (length (ls ! pos_line p))\<rparr>)"

text \<open>The line ending of the document, and the text as one string.\<close>

definition eol :: "TextDocument \<Rightarrow> string" where
  "eol document = (if eol_crlf document then [CHR 0x0D, CHR 0x0A] else [CHR 0x0A])"

definition getText :: "TextDocument \<Rightarrow> string" where
  "getText document = join_with (eol document) (doc_lines document)"

text \<open>\<^verbatim>\<open>document.getText(range)\<close>: the text between the two validated positions.\<close>

definition getTextIn :: "TextDocument \<Rightarrow> Range \<Rightarrow> string" where
  "getTextIn document rng =
     (let ls = doc_lines document;
          s = validatePosition ls (range_start rng);
          e = validatePosition ls (range_end rng)
      in if pos_line s = pos_line e
         then take (pos_character e - pos_character s) (drop (pos_character s) (ls ! pos_line s))
         else join_with (eol document)
                (drop (pos_character s) (ls ! pos_line s)
                 # take (pos_line e - pos_line s - 1) (drop (Suc (pos_line s)) ls)
                 @ [take (pos_character e) (ls ! pos_line e)]))"

text \<open>
  \<^verbatim>\<open>document.positionAt(offset)\<close>: the position of a character offset into the text,
  found by walking the lines; an offset beyond a line's end counts into its line ending
  and is put at the end of the line, one beyond the text at the end of the last line.
\<close>

fun position_in :: "nat \<Rightarrow> nat \<Rightarrow> string list \<Rightarrow> nat \<Rightarrow> EditorPosition" where
  "position_in eolLength l [] offset = \<lparr>pos_line = l, pos_character = 0\<rparr>"
| "position_in eolLength l [x] offset = \<lparr>pos_line = l, pos_character = min offset (length x)\<rparr>"
| "position_in eolLength l (x # y # ys) offset =
     (if offset < length x + eolLength
      then \<lparr>pos_line = l, pos_character = min offset (length x)\<rparr>
      else position_in eolLength (Suc l) (y # ys) (offset - (length x + eolLength)))"

definition positionAt :: "TextDocument \<Rightarrow> nat \<Rightarrow> EditorPosition" where
  "positionAt document offset =
     position_in (length (eol document)) 0 (doc_lines document) offset"

text \<open>
  An edit replaces the text of a validated range: the lines before the range, the kept
  head of its first line, the new text, the kept tail of its last line, the lines after
  the range. The new text may hold line endings (\<^verbatim>\<open>\n\<close> or \<^verbatim>\<open>\r\n\<close>), at which the
  result is split into lines again. Inserting is replacing an empty range, deleting is
  replacing by the empty text.
\<close>

fun split_lines :: "string \<Rightarrow> string list" where
  "split_lines [] = [[]]"
| "split_lines (c # cs) =
     (if c = CHR 0x0A then [] # split_lines cs
      else if c = CHR 0x0D \<and> take 1 cs = [CHR 0x0A] then [] # split_lines (drop 1 cs)
      else (case split_lines cs of [] \<Rightarrow> [[c]] | l # ls \<Rightarrow> (c # l) # ls))"

definition replace_lines :: "string list \<Rightarrow> Range \<Rightarrow> string \<Rightarrow> string list" where
  "replace_lines ls rng text =
     (let s = validatePosition ls (range_start rng);
          e = validatePosition ls (range_end rng)
      in take (pos_line s) ls
         @ split_lines (take (pos_character s) (ls ! pos_line s) @ text
                        @ drop (pos_character e) (ls ! pos_line e))
         @ drop (Suc (pos_line e)) ls)"

definition edit_replace :: "TextDocument \<Rightarrow> Range \<Rightarrow> string \<Rightarrow> TextDocument" where
  "edit_replace document rng text =
     document\<lparr>doc_lines := replace_lines (doc_lines document) rng text\<rparr>"

definition edit_insert :: "TextDocument \<Rightarrow> EditorPosition \<Rightarrow> string \<Rightarrow> TextDocument" where
  "edit_insert document p text = edit_replace document (new_Range p p) text"

definition edit_delete :: "TextDocument \<Rightarrow> Range \<Rightarrow> TextDocument" where
  "edit_delete document rng = edit_replace document rng []"

text \<open>
  What the code shows to the user and asks the editor to do, in the order it happens:
  messages, quick picks (with the labels shown), the modal warning of a naming conflict,
  revealing a position, and running the linter's auto-fix command.
\<close>

datatype Event =
    StatusBarMessage string
  | InformationMessage string
  | WarningMessage string
  | ErrorMessage string
  | QuickPick "string list"
  | ModalWarning string
  | Reveal EditorPosition
  | ESLintAutofix

text \<open>
  The answers to the modal warning: its two buttons; dismissing the dialog answers
  with the button that is marked \<^verbatim>\<open>isCloseAffordance\<close>, or with nothing.
\<close>

datatype DialogAnswer = ReplaceIt | KeepBoth | Dismissed

text \<open>
  The world an operation runs in: the document of the editor, the position of the
  cursor (\<^verbatim>\<open>selection.active\<close>), the events so far, and
  what the outside will answer when asked, each a list consumed from the front: the
  selections of the quick picks (the index of the selected entry, or \<open>None\<close> for a
  dismissed pick), the answers to the modal warning, and what reading
  \<^verbatim>\<open>cancellationToken.isCancellationRequested\<close> gives. An exhausted list answers with
  a dismissal, respectively with ``not cancelled''.
\<close>

record World =
  editor_document :: TextDocument
  cursor :: EditorPosition
  events :: "Event list"
  picks :: "nat option list"
  dialogs :: "DialogAnswer list"
  cancellations :: "bool list"

definition emit :: "Event \<Rightarrow> World \<Rightarrow> World" where
  "emit e world = world\<lparr>events := events world @ [e]\<rparr>"

text \<open>
  \<^verbatim>\<open>showQuickPick(entries)\<close>: the pick is shown and the next answer consumed; an index
  beyond the entries is no selection.
\<close>

definition showQuickPick :: "string list \<Rightarrow> 'a list \<Rightarrow> World \<Rightarrow> 'a option \<times> World" where
  "showQuickPick labels entries world =
     (let answer = (case picks world of [] \<Rightarrow> None | a # rest \<Rightarrow> a);
          world' = (emit (QuickPick labels) world)\<lparr>picks := drop 1 (picks world)\<rparr>
      in (case answer of
            None \<Rightarrow> (None, world')
          | Some k \<Rightarrow> (if k < length entries then (Some (entries ! k), world')
                      else (None, world'))))"

definition showModalWarning :: "string \<Rightarrow> World \<Rightarrow> DialogAnswer \<times> World" where
  "showModalWarning message world =
     ((case dialogs world of [] \<Rightarrow> Dismissed | a # rest \<Rightarrow> a),
      (emit (ModalWarning message) world)\<lparr>dialogs := drop 1 (dialogs world)\<rparr>)"

definition isCancellationRequested :: "World \<Rightarrow> bool \<times> World" where
  "isCancellationRequested world =
     ((case cancellations world of [] \<Rightarrow> False | c # rest \<Rightarrow> c),
      world\<lparr>cancellations := drop 1 (cancellations world)\<rparr>)"

text \<open>
  \<^verbatim>\<open>JavaScript.fixESLint()\<close>: the auto-fix command of the linter is run when it is
  registered. What it does to the document is the linter's business: the host gives it
  as a function (\<open>eslint_autofix\<close>), or \<open>None\<close> when the command is not registered.
\<close>

definition fixESLint :: "Host \<Rightarrow> World \<Rightarrow> World" where
  "fixESLint host world =
     (case eslint_autofix host of
        None \<Rightarrow> world
      | Some f \<Rightarrow> (emit ESLintAutofix world)\<lparr>editor_document := f (editor_document world)\<rparr>)"

text \<open>
  \<^verbatim>\<open>focusAt(node)\<close>: reveals the position \<^verbatim>\<open>(node.start.line - 1, node.end.column)\<close>.
\<close>

definition focusAt :: "Position \<Rightarrow> Position \<Rightarrow> World \<Rightarrow> World" where
  "focusAt first final world = emit (Reveal (new_Position (line first - 1) (column final))) world"


section \<open>The name and path of a file item (FileItem.getNameAndRelativePath)\<close>

text \<open>
  \<^verbatim>\<open>path.replace(new RegExp('\\.' + _.escapeRegExp(extension) + '$'), '')\<close>: the path
  without its last characters when these are a dot and the extension.
\<close>

definition strip_extension :: "string \<Rightarrow> string \<Rightarrow> string" where
  "strip_extension p e =
     (if length (''.'' @ e) \<le> length p \<and> drop (length p - length (''.'' @ e)) p = ''.'' @ e
      then take (length p - length (''.'' @ e)) p else p)"

text \<open>
  \<^verbatim>\<open>getNameAndRelativePath(directoryPathOfWorkingDocument)\<close>. The binding name is
  computed first and may throw, also for a caller that reads the path only.
\<close>

definition getNameAndRelativePath :: "Host \<Rightarrow> FileItem \<Rightarrow> string \<Rightarrow> js_error + string \<times> string" where
  "getNameAndRelativePath host this directoryPathOfWorkingDocument =
     (case getVariableName (lodash host) (fileNameWithoutExtension (fileInfo this))
             (file_options this) of
        Inl ex \<Rightarrow> Inl ex
      | Inr name \<Rightarrow>
          (let relativePath = getRelativePath host (fileInfo this) directoryPathOfWorkingDocument
           in if indexFile (file_options this)
                 \<and> checkIfIndexPath (extension this) (fileNameWithExtension (fileInfo this))
              then (case getVariableName (lodash host) (directoryName (fileInfo this))
                           (file_options this) of
                      Inl ex \<Rightarrow> Inl ex
                    | Inr directory \<Rightarrow> Inr (directory, path_dirname host relativePath))
              else if fileExtension (file_options this) = False
                      \<and> extension this (fileExtensionWithoutLeadingDot (fileInfo this))
                   then Inr (name, strip_extension relativePath
                                     (fileExtensionWithoutLeadingDot (fileInfo this)))
                   else Inr (name, relativePath)))"


section \<open>Fixing broken imports (JavaScript.fixImport)\<close>

text \<open>
  \<^verbatim>\<open>findRequireRecursively\<close>: the calls \<^verbatim>\<open>require('...')\<close> with exactly one argument,
  a string literal, anywhere below a node, in the order of a depth-first walk. A call
  found is not searched further. The syntax tree is a tree, so the set of visited nodes
  of the source never stops the walk.
\<close>

fun is_require_call :: "node \<Rightarrow> bool" where
  "is_require_call (CallExpression (Identifier callee) [StringLiteral v l]) = (callee = ''require'')"
| "is_require_call n = False"

function findRequireRecursively :: "node \<Rightarrow> node list" where
  "findRequireRecursively n =
     (if is_require_call n then [n]
      else concat (map findRequireRecursively (children n)))"
  by pat_completeness auto
termination
proof (relation "measure size")
  show "wf (measure (size :: node \<Rightarrow> nat))" by simp
next
  fix n c :: node
  have estimate: "size c \<le> size_list size ns" if "c \<in> set ns" for ns :: "node list"
    using that by (induction ns) auto
  assume "c \<in> set (children n)"
  then have "size c < size n"
    by (cases n) (auto simp: less_Suc_eq_le split: option.splits dest!: estimate)
  then show "(c, n) \<in> measure size" by simp
qed

declare findRequireRecursively.simps [simp del]

text \<open>
  \<^verbatim>\<open>ImportStatementForFixingImport\<close>: the path as written and the range of the string
  literal, quotes included, as a range of the editor (lines counted from 0).
\<close>

record ImportStatementForFixingImport =
  originalRelativePath :: string
  editableRange :: Range

definition new_ImportStatementForFixingImport :: "string \<Rightarrow> SourceLocation \<Rightarrow> ImportStatementForFixingImport" where
  "new_ImportStatementForFixingImport p l =
     \<lparr>originalRelativePath = p,
      editableRange = new_Range (new_Position (line (loc_start l) - 1) (column (loc_start l)))
                                (new_Position (line (loc_end l) - 1) (column (loc_end l)))\<rparr>"

text \<open>
  \<^verbatim>\<open>quoteChar\<close>: a single quote when the text of the range, read from the document as it
  is now, starts with one; a double quote otherwise.
\<close>

definition quoteChar :: "TextDocument \<Rightarrow> ImportStatementForFixingImport \<Rightarrow> string" where
  "quoteChar document item =
     (if take 1 (getTextIn document (editableRange item)) = [CHR 0x27] then [CHR 0x27]
      else [CHR 0x22])"

text \<open>
  The two sources of \<^verbatim>\<open>totalImports\<close>: the import declarations of the program body
  whose source starts with a dot and holds none of \<^verbatim>\<open>?\<close>, \<^verbatim>\<open>!\<close> and \<^verbatim>\<open>"\<close>; and the
  require calls whose argument starts with a dot.
\<close>

fun fixable_import_declaration :: "node \<Rightarrow> ImportStatementForFixingImport list" where
  "fixable_import_declaration (ImportDeclaration l specifiers source sl) =
     (if take 1 source = ''.'' \<and> CHR ''?'' \<notin> set source \<and> CHR ''!'' \<notin> set source
         \<and> CHR 0x22 \<notin> set source
      then [new_ImportStatementForFixingImport source sl] else [])"
| "fixable_import_declaration n = []"

fun fixable_require_call :: "node \<Rightarrow> ImportStatementForFixingImport list" where
  "fixable_require_call (CallExpression callee (StringLiteral v l # arguments)) =
     (if take 1 v = ''.'' then [new_ImportStatementForFixingImport v l] else [])"
| "fixable_require_call n = []"

definition totalImports :: "File \<Rightarrow> ImportStatementForFixingImport list" where
  "totalImports codeTree =
     filter (\<lambda>item. originalRelativePath item \<noteq> [])
       (concat (map fixable_import_declaration (program_body codeTree))
        @ concat (map fixable_require_call
                    (concat (map findRequireRecursively (program_body codeTree)))))"

text \<open>
  An import is broken when no file exists at its path, as written or with the
  extension of the document appended.
\<close>

definition is_broken :: "Host \<Rightarrow> FileInfo \<Rightarrow> ImportStatementForFixingImport \<Rightarrow> bool" where
  "is_broken host documentFileInfo item =
     (existsSync host (path_join host [directoryPath documentFileInfo, originalRelativePath item])
        = False
      \<and> existsSync host
           (path_join host [directoryPath documentFileInfo,
              originalRelativePath item @ ''.'' @ fileExtensionWithoutLeadingDot documentFileInfo])
        = False)"

text \<open>
  The edit of both loops: the literal is replaced by the relative path of the chosen
  file between two quote characters. The callback of \<^verbatim>\<open>editor.edit\<close> throws when
  \<^verbatim>\<open>getNameAndRelativePath\<close> does, before anything is replaced.
\<close>

definition rewrite_import :: "Host \<Rightarrow> JavaScript \<Rightarrow> FileInfo \<Rightarrow> string \<Rightarrow> ImportStatementForFixingImport
    \<Rightarrow> string \<Rightarrow> World \<Rightarrow> js_error + World" where
  "rewrite_import host this documentFileInfo rootPath item fullPathChosen world =
     (case getNameAndRelativePath host
             (new_FileItem host fullPathChosen rootPath (baseConfig this)
                (WORKING_EXTENSION (allowTypeScriptFiles this)))
             (directoryPath documentFileInfo) of
        Inl ex \<Rightarrow> Inl ex
      | Inr (name, relativePath) \<Rightarrow>
          Inr (world\<lparr>editor_document :=
                 edit_replace (editor_document world) (editableRange item)
                   (quoteChar (editor_document world) item @ relativePath
                    @ quoteChar (editor_document world) item)\<rparr>))"

text \<open>
  The state of the first loop: the world and the two lists it fills. A loop either
  goes on with a state, or makes \<^verbatim>\<open>fixImport\<close> return or throw.
\<close>

record FixState =
  fix_world :: World
  nonResolvableImports :: "ImportStatementForFixingImport list"
  manualSolvableImports :: "ImportStatementForFixingImport list"

datatype FixResult = FixFalse | FixNull | FixTrue

datatype 'a step = Continue 'a | Return World FixResult | Throw World js_error

text \<open>
  The body of the first loop after the cancellation check: no match, the import is
  recorded as not resolvable; one match, the literal is rewritten; more, the import is
  left to the second loop.
\<close>

definition fix_one :: "Host \<Rightarrow> JavaScript \<Rightarrow> FileInfo \<Rightarrow> string \<Rightarrow> ImportStatementForFixingImport
    \<Rightarrow> FixState \<Rightarrow> FixState step" where
  "fix_one host this documentFileInfo rootPath item state =
     (let matchingFullPaths = findFilesRoughly host (originalRelativePath item)
                                (fileExtensionWithoutLeadingDot documentFileInfo)
      in if length matchingFullPaths = 0
         then Continue (state\<lparr>nonResolvableImports := nonResolvableImports state @ [item]\<rparr>)
         else if length matchingFullPaths = 1
         then (case rewrite_import host this documentFileInfo rootPath item
                      (matchingFullPaths ! 0) (fix_world state) of
                 Inl ex \<Rightarrow> Throw (fix_world state) ex
               | Inr world \<Rightarrow> Continue (state\<lparr>fix_world := world\<rparr>))
         else Continue (state\<lparr>manualSolvableImports := manualSolvableImports state @ [item]\<rparr>))"

fun fix_each :: "Host \<Rightarrow> JavaScript \<Rightarrow> FileInfo \<Rightarrow> string \<Rightarrow> ImportStatementForFixingImport list
    \<Rightarrow> FixState \<Rightarrow> FixState step" where
  "fix_each host this documentFileInfo rootPath [] state = Continue state"
| "fix_each host this documentFileInfo rootPath (item # items) state =
     (case isCancellationRequested (fix_world state) of
        (True, world) \<Rightarrow> Return world FixNull
      | (False, world) \<Rightarrow>
          (case fix_one host this documentFileInfo rootPath item (state\<lparr>fix_world := world\<rparr>) of
             Continue state' \<Rightarrow> fix_each host this documentFileInfo rootPath items state'
           | Return w r \<Rightarrow> Return w r
           | Throw w ex \<Rightarrow> Throw w ex))"

text \<open>
  The second loop: for every import left to it, a quick pick of the matching files
  (labelled by their path below the root); no selection ends the operation, and so does
  a cancellation seen after the selection.
\<close>

definition pick_label :: "string \<Rightarrow> string \<Rightarrow> string" where
  "pick_label rootPath fullPathOfFile = slashes (drop (length rootPath) fullPathOfFile)"

fun pick_each :: "Host \<Rightarrow> JavaScript \<Rightarrow> FileInfo \<Rightarrow> string \<Rightarrow> ImportStatementForFixingImport list
    \<Rightarrow> World \<Rightarrow> World step" where
  "pick_each host this documentFileInfo rootPath [] world = Continue world"
| "pick_each host this documentFileInfo rootPath (item # items) world =
     (let matchingFullPaths = findFilesRoughly host (originalRelativePath item)
                                (fileExtensionWithoutLeadingDot documentFileInfo)
      in case showQuickPick (map (pick_label rootPath) matchingFullPaths) matchingFullPaths world of
           (None, world1) \<Rightarrow> Return world1 FixNull
         | (Some selected, world1) \<Rightarrow>
             (case isCancellationRequested world1 of
                (True, world2) \<Rightarrow> Return world2 FixNull
              | (False, world2) \<Rightarrow>
                  (case rewrite_import host this documentFileInfo rootPath item selected world2 of
                     Inl ex \<Rightarrow> Throw world2 ex
                   | Inr world3 \<Rightarrow> pick_each host this documentFileInfo rootPath items world3)))"

text \<open>A natural number in decimal, for the count in the last message.\<close>

fun show_digit :: "nat \<Rightarrow> char" where
  "show_digit n = (''0123456789'' ! n)"

function show_nat :: "nat \<Rightarrow> string" where
  "show_nat n = (if n < 10 then [show_digit n] else show_nat (n div 10) @ [show_digit (n mod 10)])"
  by pat_completeness auto
termination
  by (relation "measure id") auto

declare show_nat.simps [simp del]

definition not_fixed_message :: "nat \<Rightarrow> string" where
  "not_fixed_message n =
     ''Code Quicken: There '' @ (if n = 1 then ''was'' else ''were'') @ '' '' @ show_nat n
     @ '' broken import/require statement'' @ (if n = 1 then [] else ''s'')
     @ '' that had not been fixed.''"

text \<open>
  \<^verbatim>\<open>fixImport(editor, document, cancellationToken)\<close>. The tree that \<^verbatim>\<open>parse\<close> returns is
  used without a check: \<^verbatim>\<open>codeTree.program\<close> throws a \<^verbatim>\<open>TypeError\<close> when it is
  \<^verbatim>\<open>null\<close>.
\<close>

definition fixImport :: "Host \<Rightarrow> JavaScript \<Rightarrow> World \<Rightarrow> World \<times> FixResult outcome" where
  "fixImport host this world =
     (if WORKING_LANGUAGE (languageId (editor_document world)) = False
      then (world, Returned FixFalse)
      else
        let documentFileInfo = newFileInfo host (fileName (editor_document world));
            rootPath = getWorkspaceFolder host (fileName (editor_document world))
        in case parse host (getText (editor_document world)) of
             None \<Rightarrow> (world, Thrown TypeError)
           | Some codeTree \<Rightarrow>
               let brokenImports = filter (is_broken host documentFileInfo) (totalImports codeTree)
               in if length brokenImports = 0
                  then (emit (StatusBarMessage
                          ''Code Quicken: No broken import/require statements have been found.'')
                          world,
                        Returned FixNull)
                  else
                    (case fix_each host this documentFileInfo rootPath brokenImports
                            \<lparr>fix_world = world, nonResolvableImports = [],
                             manualSolvableImports = []\<rparr> of
                       Return w r \<Rightarrow> (w, Returned r)
                     | Throw w ex \<Rightarrow> (w, Thrown ex)
                     | Continue state \<Rightarrow>
                         (case pick_each host this documentFileInfo rootPath
                                 (manualSolvableImports state) (fix_world state) of
                            Return w r \<Rightarrow> (w, Returned r)
                          | Throw w ex \<Rightarrow> (w, Thrown ex)
                          | Continue w \<Rightarrow>
                              (emit (if length (nonResolvableImports state) = 0
                                     then StatusBarMessage
                                       ''Code Quicken: All broken import/require statements have been fixed.''
                                     else WarningMessage
                                       (not_fixed_message (length (nonResolvableImports state))))
                                 (fixESLint host w),
                               Returned FixTrue))))"


section \<open>Searching a tree for a template (findInCodeTree)\<close>

text \<open>
  \<^verbatim>\<open>findInCodeTree(source, target)\<close> below the program: a node that matches the target is
  the result; otherwise the search goes into the \<^verbatim>\<open>body\<close> (an array or one node), into
  the \<^verbatim>\<open>declaration\<close> of an export declaration, or into the \<^verbatim>\<open>declarations\<close> of a
  variable declaration, and returns the first result. The target is given as its
  predicate.
\<close>

fun first_found :: "'a option list \<Rightarrow> 'a option" where
  "first_found [] = None"
| "first_found (None # rs) = first_found rs"
| "first_found (Some r # rs) = Some r"

fun findInCodeTree :: "(node \<Rightarrow> bool) \<Rightarrow> node \<Rightarrow> node option" where
  "findInCodeTree target (BlockLike t body) =
     (if target (BlockLike t body) then Some (BlockLike t body)
      else first_found (map (findInCodeTree target) body))"
| "findInCodeTree target (FunctionDeclaration n params body) =
     (if target (FunctionDeclaration n params body) then Some (FunctionDeclaration n params body)
      else findInCodeTree target body)"
| "findInCodeTree target (WithBody t before body after) =
     (if target (WithBody t before body after) then Some (WithBody t before body after)
      else findInCodeTree target body)"
| "findInCodeTree target (ExportNamedDeclaration declaration specifiers source) =
     (if target (ExportNamedDeclaration declaration specifiers source)
      then Some (ExportNamedDeclaration declaration specifiers source)
      else (case declaration of None \<Rightarrow> None | Some d \<Rightarrow> findInCodeTree target d))"
| "findInCodeTree target (ExportDefaultDeclaration declaration) =
     (if target (ExportDefaultDeclaration declaration)
      then Some (ExportDefaultDeclaration declaration)
      else findInCodeTree target declaration)"
| "findInCodeTree target (VariableDeclaration l declarations) =
     (if target (VariableDeclaration l declarations) then Some (VariableDeclaration l declarations)
      else first_found (map (findInCodeTree target) declarations))"
| "findInCodeTree target n = (if target n then Some n else None)"

text \<open>
  From the file node: the search goes to the program, whose \<^verbatim>\<open>body\<close> is the array of
  statements (the program itself matches none of the templates searched for).
\<close>

definition findInFile :: "(node \<Rightarrow> bool) \<Rightarrow> File \<Rightarrow> node option" where
  "findInFile target codeTree = first_found (map (findInCodeTree target) (program_body codeTree))"


section \<open>The exports seen through an index file (getExportedVariablesFromIndexFile)\<close>

text \<open>A \<^verbatim>\<open>forEach\<close> that updates a state and may throw.\<close>

fun fold_err :: "('a \<Rightarrow> 's \<Rightarrow> 'e + 's) \<Rightarrow> 'a list \<Rightarrow> 's \<Rightarrow> 'e + 's" where
  "fold_err f [] s = Inr s"
| "fold_err f (x # xs) s = (case f x s of Inl e \<Rightarrow> Inl e | Inr s' \<Rightarrow> fold_err f xs s')"

text \<open>
  \<^verbatim>\<open>importedVariableSourceDict\<close>: for every import declaration of the index file, the
  resolved source by the local name of a default specifier and by the imported name of
  a named specifier.
\<close>

definition import_source_of_specifier :: "string \<Rightarrow> Specifier \<Rightarrow> (string \<rightharpoonup> string) \<Rightarrow> js_error + (string \<rightharpoonup> string)" where
  "import_source_of_specifier resolved item hash =
     (case spec_type item of
        ImportDefaultSpecifier \<Rightarrow> Inr (hash(local_name item \<mapsto> resolved))
      | ImportSpecifier \<Rightarrow>
          (case imported_name item of
             None \<Rightarrow> Inl TypeError
           | Some n \<Rightarrow> Inr (hash(n \<mapsto> resolved)))
      | ImportNamespaceSpecifier \<Rightarrow> Inr hash)"

fun import_sources_of :: "Host \<Rightarrow> string \<Rightarrow> node \<Rightarrow> (string \<rightharpoonup> string) \<Rightarrow> js_error + (string \<rightharpoonup> string)" where
  "import_sources_of host directory (ImportDeclaration l specifiers source sl) hash =
     fold_err (import_source_of_specifier (path_resolve host [directory, source])) specifiers hash"
| "import_sources_of host directory n hash = Inr hash"

text \<open>
  The names saved, in order, and \<^verbatim>\<open>sourceExportedVariableDict\<close>, the names by the file
  they come from. \<^verbatim>\<open>save(name, path)\<close> skips an empty name or path.
\<close>

record ExportTable =
  exportedVariableList :: "string list"
  sourceExportedVariableDict :: "string \<rightharpoonup> string list"

definition save :: "string \<Rightarrow> string \<Rightarrow> ExportTable \<Rightarrow> ExportTable" where
  "save name p table =
     (if name = [] \<or> p = [] then table
      else \<lparr>exportedVariableList = exportedVariableList table @ [name],
            sourceExportedVariableDict =
              (sourceExportedVariableDict table)
                (p \<mapsto> (case sourceExportedVariableDict table p of
                           None \<Rightarrow> [name] | Some names \<Rightarrow> names @ [name]))\<rparr>)"

text \<open>
  The specifiers of the named export declarations. The condition that guards the body
  in the source is an arrow function, which is always true, so every specifier is
  taken: its name is \<^verbatim>\<open>item.local.name\<close> (which throws without a \<^verbatim>\<open>local\<close>), its path the
  source of the declaration or, without one, the source the name was imported from
  (resolving \<^verbatim>\<open>undefined\<close> throws).
\<close>

definition save_export_specifier :: "Host \<Rightarrow> FileInfo \<Rightarrow> (string \<rightharpoonup> string) \<Rightarrow> string option
    \<Rightarrow> ExportSpecifier \<Rightarrow> ExportTable \<Rightarrow> js_error + ExportTable" where
  "save_export_specifier host info imported source item table =
     (case export_local_name item of
        None \<Rightarrow> Inl TypeError
      | Some name \<Rightarrow>
          (case source of
             Some value \<Rightarrow>
               Inr (save name (getFilePathWithExtension host (fileExtensionWithoutLeadingDot info)
                                 [directoryPath info, value]) table)
           | None \<Rightarrow>
               (case imported name of
                  None \<Rightarrow> Inl TypeError
                | Some origin \<Rightarrow>
                    Inr (save name (getFilePathWithExtension host
                                      (fileExtensionWithoutLeadingDot info) [origin]) table))))"

fun save_named_exports :: "Host \<Rightarrow> FileInfo \<Rightarrow> (string \<rightharpoonup> string) \<Rightarrow> node \<Rightarrow> ExportTable
    \<Rightarrow> js_error + ExportTable" where
  "save_named_exports host info imported (ExportNamedDeclaration declaration specifiers source) table =
     fold_err (save_export_specifier host info imported source) specifiers table"
| "save_named_exports host info imported n table = Inr table"

text \<open>The star re-exports: every exported name of the re-exported file is saved.\<close>

fun save_star_exports :: "Host \<Rightarrow> FileInfo \<Rightarrow> node \<Rightarrow> ExportTable \<Rightarrow> js_error + ExportTable" where
  "save_star_exports host info (ExportAllDeclaration source) table =
     (let p = getFilePathWithExtension host (fileExtensionWithoutLeadingDot info)
                [directoryPath info, source]
      in case getExportedVariables (stack_depth host) host p of
           Inl ex \<Rightarrow> Inl ex
         | Inr names \<Rightarrow> Inr (fold (\<lambda>name. save name p) names table))"
| "save_star_exports host info n table = Inr table"

text \<open>
  \<^verbatim>\<open>getIndexPath()\<close>, \<^verbatim>\<open>hasIndexFile()\<close> and \<^verbatim>\<open>getExportedVariablesFromIndexFile()\<close>.
  Whatever is thrown on the way is caught and the result is then the empty array.
\<close>

definition getIndexPath :: "Host \<Rightarrow> FileInfo \<Rightarrow> string" where
  "getIndexPath host info =
     path_resolve host [directoryPath info, ''index.'' @ fileExtensionWithoutLeadingDot info]"

definition hasIndexFile :: "Host \<Rightarrow> FileInfo \<Rightarrow> bool" where
  "hasIndexFile host info = existsSync host (getIndexPath host info)"

definition index_export_table :: "Host \<Rightarrow> FileInfo \<Rightarrow> js_error + ExportTable" where
  "index_export_table host info =
     (case readFileSync host (getIndexPath host info) of
        None \<Rightarrow> Inl FileNotFound
      | Some code \<Rightarrow>
          (case parse host code of
             None \<Rightarrow> Inl TypeError
           | Some codeTree \<Rightarrow>
               (case fold_err (import_sources_of host (directoryPath info))
                       (program_body codeTree) Map.empty of
                  Inl ex \<Rightarrow> Inl ex
                | Inr imported \<Rightarrow>
                    (case fold_err (save_named_exports host info imported) (program_body codeTree)
                            \<lparr>exportedVariableList = [], sourceExportedVariableDict = Map.empty\<rparr> of
                       Inl ex \<Rightarrow> Inl ex
                     | Inr table \<Rightarrow>
                         fold_err (save_star_exports host info) (program_body codeTree) table))))"

definition getExportedVariablesFromIndexFile :: "Host \<Rightarrow> FileInfo \<Rightarrow> string list" where
  "getExportedVariablesFromIndexFile host info =
     (case index_export_table host info of
        Inl ex \<Rightarrow> []
      | Inr table \<Rightarrow>
          if fileNameWithoutExtension info = ''index'' then exportedVariableList table
          else (case sourceExportedVariableDict table (fullPath info) of
                  Some names \<Rightarrow> names
                | None \<Rightarrow> []))"


section \<open>The statement text (getImportSnippet)\<close>

text \<open>
  \<^verbatim>\<open>getImportSnippet(name, path, useImport, options, document)\<close>; the name is \<open>None\<close>
  for \<^verbatim>\<open>null\<close>, and an empty name counts as none.
\<close>

definition getImportSnippet :: "string option \<Rightarrow> string \<Rightarrow> bool \<Rightarrow> LanguageOptions \<Rightarrow> TextDocument \<Rightarrow> string" where
  "getImportSnippet name p useImport options document =
     (let quoted = (if quoteCharacter options = Single then [CHR 0x27] @ p @ [CHR 0x27]
                    else [CHR 0x22] @ p @ [CHR 0x22]);
          lineEnding = (if semiColons options then '';'' else []) @ eol document
      in if useImport
         then (case name of
                 Some n \<Rightarrow> if n \<noteq> [] then ''import '' @ n @ '' from '' @ quoted @ lineEnding
                           else ''import '' @ quoted @ lineEnding
               | None \<Rightarrow> ''import '' @ quoted @ lineEnding)
         else (case name of
                 Some n \<Rightarrow> if n \<noteq> [] then ''const '' @ n @ '' = require('' @ quoted @ '')'' @ lineEnding
                           else ''require('' @ quoted @ '')''
               | None \<Rightarrow> ''require('' @ quoted @ '')''))"


section \<open>Adding an import of a file (FileItem.addImport)\<close>

text \<open>
  A part of \<^verbatim>\<open>addImport\<close> either goes on with a value, or makes \<^verbatim>\<open>addImport\<close> return
  (it returns \<^verbatim>\<open>null\<close> everywhere) or throw.
\<close>

datatype 'a stage = Next 'a World | Finished World | Failed World js_error

text \<open>
  The three variables the parts work on: \<^verbatim>\<open>name\<close> (the binding as written in the
  statement), \<^verbatim>\<open>iden\<close> (the identifier bound) and \<^verbatim>\<open>path\<close>.
\<close>

record Binding =
  binding_name :: string
  iden :: string
  import_path :: string

text \<open>
  The quick pick between \<^verbatim>\<open>*\<close> and the exported names. No selection (or an empty
  one) makes \<^verbatim>\<open>addImport\<close> return; \<^verbatim>\<open>*\<close> gives a namespace import under the identifier
  so far, a name gives a named import of it.
\<close>

definition choose_export :: "string list \<Rightarrow> string \<Rightarrow> World \<Rightarrow> (string \<times> string) option \<times> World" where
  "choose_export exportedVariables identifier world =
     (case showQuickPick (''*'' # exportedVariables) (''*'' # exportedVariables) world of
        (None, world') \<Rightarrow> (None, world')
      | (Some selectedName, world') \<Rightarrow>
          if selectedName = [] then (None, world')
          else if selectedName = ''*'' then (Some (''* as '' @ identifier, identifier), world')
          else (Some (''{ '' @ selectedName @ '' }'', selectedName), world'))"

text \<open>\<^verbatim>\<open>p.replace(new RegExp(_.escapeRegExp(suffix) + '$'), '')\<close>\<close>

definition strip_suffix :: "string \<Rightarrow> string \<Rightarrow> string" where
  "strip_suffix p suffix =
     (if length suffix \<le> length p \<and> drop (length p - length suffix) p = suffix
      then take (length p - length suffix) p else p)"

text \<open>
  Lines 375 to 424: the file has an index file beside it. With one exported name the
  import is a named import of it through the index file; with more the user chooses;
  with none this part decides nothing. The flag says whether it decided.
\<close>

definition index_file_stage :: "Host \<Rightarrow> FileItem \<Rightarrow> string \<Rightarrow> ImportStatementForReadOnly list
    \<Rightarrow> Binding \<Rightarrow> World \<Rightarrow> (Binding \<times> bool) stage" where
  "index_file_stage host this directory existingImports binding world =
     (if hasIndexFile host (fileInfo this)
      then
        let exportedVariables = getExportedVariablesFromIndexFile host (fileInfo this);
            relative = getRelativePath host (newFileInfo host (getIndexPath host (fileInfo this)))
                         directory;
            indexFileRelativePath =
              (if indexFile (file_options this) = False then path_dirname host relative
               else if fileExtension (file_options this) = False
                    then strip_suffix relative (path_extname host relative)
                    else relative);
            duplicateImportForIndexFile = getDuplicateImport existingImports indexFileRelativePath
        in if length exportedVariables > 0
              \<and> (case duplicateImportForIndexFile of
                    None \<Rightarrow> False | Some d \<Rightarrow> IMPORT_EVERYTHING (node_of d))
           then (case duplicateImportForIndexFile of
                   None \<Rightarrow> Finished world
                 | Some d \<Rightarrow>
                     Finished (focusAt (start_pos d) (end_pos d)
                       (emit (InformationMessage
                                (''The module '' @ [CHR 0x22] @ binding_name binding @ [CHR 0x22]
                                 @ '' has been already imported from '' @ [CHR 0x22]
                                 @ indexFileRelativePath @ [CHR 0x22] @ ''.''))
                          world)))
           else if length exportedVariables = 1
           then Next (\<lparr>binding_name = ''{ '' @ exportedVariables ! 0 @ '' }'',
                       iden = exportedVariables ! 0,
                       import_path = indexFileRelativePath\<rparr>, True) world
           else if length exportedVariables > 1
           then (case choose_export exportedVariables (iden binding) world of
                   (None, world') \<Rightarrow> Finished world'
                 | (Some (chosenName, chosenIden), world') \<Rightarrow>
                     Next (\<lparr>binding_name = chosenName, iden = chosenIden,
                            import_path = indexFileRelativePath\<rparr>, True) world')
           else Next (binding, False) world
      else Next (binding, False) world)"

text \<open>
  Lines 426 to 458: the file itself. It is read (which throws when it is gone) and
  parsed; a tree that is \<^verbatim>\<open>null\<close>, a default export or an assignment to
  \<^verbatim>\<open>module.exports\<close> leave the default import. Otherwise a file without exported names
  is imported as a namespace, and for one with exported names the user chooses.
\<close>

definition own_file_stage :: "Host \<Rightarrow> FileItem \<Rightarrow> Binding \<Rightarrow> World \<Rightarrow> Binding stage" where
  "own_file_stage host this binding world =
     (case readFileSync host (fullPath (fileInfo this)) of
        None \<Rightarrow> Failed world FileNotFound
      | Some codeText \<Rightarrow>
          let foreignFileHasDefaultExport =
                (case parse host codeText of
                   None \<Rightarrow> True
                 | Some codeTree \<Rightarrow> findInFile EXPORT_DEFAULT codeTree \<noteq> None
                                   \<or> findInFile MODULE_EXPORTS codeTree \<noteq> None)
          in if foreignFileHasDefaultExport = False
             then (case getExportedVariables (stack_depth host) host (fullPath (fileInfo this)) of
                     Inl ex \<Rightarrow> Failed world ex
                   | Inr exportedVariables \<Rightarrow>
                       if length exportedVariables = 0
                       then Next (binding\<lparr>binding_name := ''* as '' @ iden binding\<rparr>) world
                       else (case choose_export exportedVariables (iden binding) world of
                               (None, world') \<Rightarrow> Finished world'
                             | (Some (chosenName, chosenIden), world') \<Rightarrow>
                                 Next (binding\<lparr>binding_name := chosenName, iden := chosenIden\<rparr>)
                                   world'))
             else Next binding world)"

text \<open>Lines 374 to 459: the two parts, for the import syntax only.\<close>

definition binding_stage :: "Host \<Rightarrow> FileItem \<Rightarrow> string \<Rightarrow> ImportStatementForReadOnly list
    \<Rightarrow> Binding \<Rightarrow> World \<Rightarrow> Binding stage" where
  "binding_stage host this directory existingImports binding world =
     (if syntax_option (file_options this) = UseImport
      then (case index_file_stage host this directory existingImports binding world of
              Finished w \<Rightarrow> Finished w
            | Failed w ex \<Rightarrow> Failed w ex
            | Next (binding', foundIndexFileAndWentForIt) w \<Rightarrow>
                if foundIndexFileAndWentForIt = False then own_file_stage host this binding' w
                else Next binding' w)
      else Next binding world)"

text \<open>Positions of the editor from positions of the tree.\<close>

definition editor_position :: "Position \<Rightarrow> EditorPosition" where
  "editor_position p = new_Position (line p - 1) (column p)"

text \<open>
  \<^verbatim>\<open>s.lastIndexOf(c)\<close> and \<^verbatim>\<open>s.indexOf(c)\<close>: the index of the last, the first
  occurrence, or \<open>-1\<close>.
\<close>

definition indexOf :: "string \<Rightarrow> char \<Rightarrow> int" where
  "indexOf s c = (if c \<in> set s then int (length (takeWhile (\<lambda>x. x \<noteq> c) s)) else - 1)"

definition lastIndexOf :: "string \<Rightarrow> char \<Rightarrow> int" where
  "lastIndexOf s c =
     (if c \<in> set s then int (length s) - 1 - int (length (takeWhile (\<lambda>x. x \<noteq> c) (rev s)))
      else - 1)"

text \<open>
  Lines 476 to 500: the new binding is a namespace import and the existing declaration
  has none. The range from the first to the last specifier, widened to the braces where
  these are named specifiers, is replaced by the new binding. Without a specifier,
  reading \<^verbatim>\<open>firstNameNode.loc\<close> throws.
\<close>

definition replace_by_namespace :: "Host \<Rightarrow> SourceLocation \<Rightarrow> Specifier list \<Rightarrow> string \<Rightarrow> World
    \<Rightarrow> World \<times> unit outcome" where
  "replace_by_namespace host l specifiers name world =
     (case specifiers of
        [] \<Rightarrow> (world, Thrown TypeError)
      | s # ss \<Rightarrow>
          let document = editor_document world;
              firstNameNode = hd specifiers;
              lastNameNode = last specifiers;
              range0 = new_Range (editor_position (loc_start (spec_loc firstNameNode)))
                                 (editor_position (loc_end (spec_loc lastNameNode)));
              range1 =
                (if spec_type firstNameNode = ImportSpecifier
                 then
                   let beforeNameText = getTextIn document
                         (new_Range (editor_position (loc_start l))
                                    (editor_position (loc_start (spec_loc firstNameNode))));
                       openBraceDelta = int (length beforeNameText)
                                        - lastIndexOf beforeNameText CHR ''{''
                   in new_Range (positionAt document
                                   (nat (int (spec_start firstNameNode) - openBraceDelta)))
                                (range_end range0)
                 else range0);
              range2 =
                (if spec_type lastNameNode = ImportSpecifier
                 then
                   let afterNameText = getTextIn document
                         (new_Range (editor_position (loc_end (spec_loc lastNameNode)))
                                    (editor_position (loc_end l)));
                       closeBraceDelta = indexOf afterNameText CHR ''}'' + 1
                   in new_Range (range_start range1)
                                (positionAt document
                                   (nat (int (spec_end lastNameNode) + closeBraceDelta)))
                 else range1)
          in (fixESLint host (world\<lparr>editor_document := edit_replace document range2 name\<rparr>),
              Returned ()))"

text \<open>
  The notification of a duplicate: an information message and the reveal of a
  position.
\<close>

definition notify_duplicate :: "string \<Rightarrow> Position \<Rightarrow> Position \<Rightarrow> World \<Rightarrow> World \<times> unit outcome" where
  "notify_duplicate message first final world =
     (focusAt first final (emit (InformationMessage message) world), Returned ())"

definition already_imported :: "string \<Rightarrow> string" where
  "already_imported what =
     ''The module '' @ [CHR 0x22] @ what @ [CHR 0x22] @ '' has been already imported.''"

text \<open>An edit that inserts, followed by the linter's fix and the return.\<close>

definition apply_insert :: "Host \<Rightarrow> EditorPosition \<Rightarrow> string \<Rightarrow> World \<Rightarrow> World \<times> unit outcome" where
  "apply_insert host p text world =
     (fixESLint host (world\<lparr>editor_document := edit_insert (editor_document world) p text\<rparr>),
      Returned ())"

text \<open>
  Lines 502 to 542: the loop over the specifiers looks for one that already gives the
  binding and stops at the first; without one the new binding is inserted.
\<close>

definition merge_binding :: "Host \<Rightarrow> SourceLocation \<Rightarrow> Specifier list \<Rightarrow> Binding \<Rightarrow> World
    \<Rightarrow> World \<times> unit outcome" where
  "merge_binding host l importedVariables binding world =
     (let name = binding_name binding
      in case find (\<lambda>node. (spec_type node = ImportDefaultSpecifier \<and> take 1 name \<noteq> ''{'')
                           \<or> (spec_type node = ImportSpecifier
                               \<and> imported_name node = Some (iden binding)))
                   importedVariables of
           Some duplicateNamedImport \<Rightarrow>
             notify_duplicate (already_imported (iden binding))
               (loc_start (spec_loc duplicateNamedImport)) (loc_end (spec_loc duplicateNamedImport))
               world
         | None \<Rightarrow>
             if take 1 name = ''{''
             then (case find (\<lambda>node. spec_type node = ImportSpecifier) (rev importedVariables) of
                     Some lastNamedImport \<Rightarrow>
                       apply_insert host (editor_position (loc_end (spec_loc lastNamedImport)))
                         ('', '' @ iden binding) world
                   | None \<Rightarrow>
                       (case importedVariables of
                          [] \<Rightarrow> (world, Thrown TypeError)
                        | s # ss \<Rightarrow>
                            apply_insert host
                              (editor_position (loc_end (spec_loc (last importedVariables))))
                              ('', '' @ name) world))
             else apply_insert host
                    (new_Position (line (loc_start l) - 1) (column (loc_start l) + length ''import ''))
                    (name @ '', '') world)"

text \<open>
  Lines 465 to 543: grouping is on and the duplicate is an import declaration.
  \<^item> An existing namespace import stops a named or namespace import.
  \<^item> A new namespace import replaces the existing specifiers.
  \<^item> A specifier that already gives the binding stops the import: a default specifier
    when the new binding is a default one, a named specifier that imports the same name.
  \<^item> A new named import is inserted after the last named specifier, or, when there is
    none, in braces after the last specifier (reading \<^verbatim>\<open>lastAnyImport.loc\<close> throws when
    there is no specifier at all).
  \<^item> A new default import is inserted after the keyword \<^verbatim>\<open>import\<close> and a space.
\<close>

definition merge_into_declaration :: "Host \<Rightarrow> SourceLocation \<Rightarrow> Specifier list \<Rightarrow> Binding \<Rightarrow> World
    \<Rightarrow> World \<times> unit outcome" where
  "merge_into_declaration host l specifiers binding world =
     (let name = binding_name binding
      in case find (\<lambda>node. spec_type node = ImportNamespaceSpecifier) specifiers of
           Some duplicateEverythingImport \<Rightarrow>
             if take 1 name = ''{'' \<or> take 1 name = ''*''
             then notify_duplicate
                    (''The module '' @ [CHR 0x22] @ import_path binding @ [CHR 0x22]
                     @ '' has been already imported as '' @ [CHR 0x22]
                     @ local_name duplicateEverythingImport @ [CHR 0x22] @ ''.'')
                    (loc_start (spec_loc (hd specifiers))) (loc_end (spec_loc (hd specifiers)))
                    world
             else merge_binding host l specifiers binding world
         | None \<Rightarrow>
             if take 1 name = ''*'' then replace_by_namespace host l specifiers name world
             else merge_binding host l specifiers binding world)"

text \<open>
  Lines 461 to 549: a duplicate by path exists. It is merged into when grouping is on
  and it is an import declaration; otherwise it is reported.
\<close>

fun import_declaration_parts :: "node \<Rightarrow> (SourceLocation \<times> Specifier list) option" where
  "import_declaration_parts (ImportDeclaration l specifiers source sl) = Some (l, specifiers)"
| "import_declaration_parts n = None"

definition merge_stage :: "Host \<Rightarrow> FileItem \<Rightarrow> ImportStatementForReadOnly \<Rightarrow> Binding \<Rightarrow> World
    \<Rightarrow> World \<times> unit outcome" where
  "merge_stage host this duplicateImport binding world =
     (case import_declaration_parts (node_of duplicateImport) of
        Some (l, specifiers) \<Rightarrow>
          if grouping (file_options this)
          then merge_into_declaration host l specifiers binding world
          else notify_duplicate (already_imported (binding_name binding))
                 (start_pos duplicateImport) (end_pos duplicateImport) world
      | None \<Rightarrow>
          notify_duplicate (already_imported (binding_name binding))
            (start_pos duplicateImport) (end_pos duplicateImport) world)"

text \<open>
  \<^verbatim>\<open>existingVariableHash\<close>: the pairs of the local name of a specifier and the import
  statement it belongs to, for the import declarations, without the pairs of an empty
  name; then \<^verbatim>\<open>_.fromPairs\<close>, which starts from \<^verbatim>\<open>{}\<close> and assigns
  \<^verbatim>\<open>result[name] = statement\<close> pair by pair.
  \<^item> For a name other than \<^verbatim>\<open>__proto__\<close> the assignment makes an own property, a later
    pair replacing an earlier one of the same name.
  \<^item> Assigning to \<^verbatim>\<open>__proto__\<close> makes no own property: it sets the prototype of the
    hash to the statement (an object), a later such pair replacing an earlier one.
\<close>

record VariableHash =
  own_properties :: "(string \<times> ImportStatementForReadOnly) list"
  prototype :: "ImportStatementForReadOnly option"

definition variable_pairs :: "ImportStatementForReadOnly list \<Rightarrow> (string \<times> ImportStatementForReadOnly) list" where
  "variable_pairs existingImports =
     filter (\<lambda>pair. fst pair \<noteq> [])
       (concat (map (\<lambda>item. case import_declaration_parts (node_of item) of
                              None \<Rightarrow> []
                            | Some (l, specifiers) \<Rightarrow>
                                map (\<lambda>spec. (local_name spec, item)) specifiers)
                    existingImports))"

definition fromPairs :: "(string \<times> ImportStatementForReadOnly) list \<Rightarrow> VariableHash" where
  "fromPairs pairs =
     \<lparr>own_properties = filter (\<lambda>pair. fst pair \<noteq> ''__proto__'') pairs,
      prototype = (case filter (\<lambda>pair. fst pair = ''__proto__'') pairs of
                     [] \<Rightarrow> None
                   | p # ps \<Rightarrow> Some (snd (last (p # ps))))\<rparr>"

definition existingVariableHash :: "ImportStatementForReadOnly list \<Rightarrow> VariableHash" where
  "existingVariableHash existingImports = fromPairs (variable_pairs existingImports)"

text \<open>
  What \<^verbatim>\<open>existingVariableHash[iden]\<close> can give, other than \<^verbatim>\<open>undefined\<close>: an import
  statement; or, through a prototype set by a pair named \<^verbatim>\<open>__proto__\<close>, a member of
  that statement, which is its \<^verbatim>\<open>node\<close>, its \<^verbatim>\<open>path\<close>, or its \<^verbatim>\<open>start\<close> or \<^verbatim>\<open>end\<close>;
  or a member that every object inherits (a function, or the prototype of all objects
  at \<^verbatim>\<open>__proto__\<close>).
\<close>

datatype property_value =
    StatementValue ImportStatementForReadOnly
  | NodeValue node
  | PathValue string
  | PositionValue Position
  | PrototypeMember

definition object_prototype_names :: "string list" where
  "object_prototype_names =
     [''constructor'', ''hasOwnProperty'', ''isPrototypeOf'', ''propertyIsEnumerable'',
      ''toLocaleString'', ''toString'', ''valueOf'', ''__proto__'', ''__defineGetter__'',
      ''__defineSetter__'', ''__lookupGetter__'', ''__lookupSetter__'']"

text \<open>
  Reading a property: an own property first; \<^verbatim>\<open>__proto__\<close> reads the prototype (the
  statement it was set to, or the prototype of all objects); any other name is looked
  up in the statement the prototype was set to, if any, and then among the members that
  every object inherits. \<open>None\<close> is \<^verbatim>\<open>undefined\<close>.
\<close>

definition read_inherited :: "string \<Rightarrow> property_value option" where
  "read_inherited key = (if key \<in> set object_prototype_names then Some PrototypeMember else None)"

definition read_member :: "ImportStatementForReadOnly \<Rightarrow> string \<Rightarrow> property_value option" where
  "read_member statement key =
     (if key = ''node'' then Some (NodeValue (node_of statement))
      else if key = ''path'' then map_option PathValue (path statement)
      else if key = ''start'' then Some (PositionValue (start_pos statement))
      else if key = ''end'' then Some (PositionValue (end_pos statement))
      else read_inherited key)"

definition read_property :: "VariableHash \<Rightarrow> string \<Rightarrow> property_value option" where
  "read_property hash key =
     (case find (\<lambda>pair. fst pair = key) (rev (own_properties hash)) of
        Some pair \<Rightarrow> Some (StatementValue (snd pair))
      | None \<Rightarrow>
          (case prototype hash of
             Some statement \<Rightarrow>
               if key = ''__proto__'' then Some (StatementValue statement)
               else read_member statement key
           | None \<Rightarrow> read_inherited key))"

text \<open>
  \<^verbatim>\<open>if (duplicateVariable)\<close>: every value that can be read is truthy but the empty
  string (and \<^verbatim>\<open>undefined\<close>).
\<close>

fun truthy :: "property_value option \<Rightarrow> bool" where
  "truthy None = False"
| "truthy (Some (PathValue s)) = (s \<noteq> [])"
| "truthy (Some v) = True"

text \<open>The question of the modal warning.\<close>

definition replace_question :: "string \<Rightarrow> string" where
  "replace_question identifier =
     ''Do you want to replace the existing '' @ [CHR 0x22] @ identifier @ [CHR 0x22] @ ''?''"

text \<open>
  The edit after the answer \<^verbatim>\<open>Replace It\<close>. The range to delete is made of
  \<^verbatim>\<open>duplicateVariable.start.line - 1\<close>, \<^verbatim>\<open>duplicateVariable.start.column\<close> and the same
  of \<^verbatim>\<open>end\<close>.
  \<^item> An import statement has both positions: its range is deleted.
  \<^item> A node has numbers at \<^verbatim>\<open>start\<close> and \<^verbatim>\<open>end\<close>, of which \<^verbatim>\<open>line\<close> and \<^verbatim>\<open>column\<close> are
    \<^verbatim>\<open>undefined\<close>: the constructor of the range is called with \<^verbatim>\<open>NaN\<close> and
    \<^verbatim>\<open>undefined\<close> and throws.
  \<^item> Every other value has no \<^verbatim>\<open>start\<close>: reading \<^verbatim>\<open>start.line\<close> throws a \<^verbatim>\<open>TypeError\<close>.
\<close>

fun delete_duplicate :: "property_value \<Rightarrow> World \<Rightarrow> js_error + World" where
  "delete_duplicate (StatementValue duplicateVariable) world =
     Inr (world\<lparr>editor_document :=
            edit_delete (editor_document world)
              (new_Range (editor_position (start_pos duplicateVariable))
                         (editor_position (end_pos duplicateVariable)))\<rparr>)"
| "delete_duplicate (NodeValue n) world = Inl InvalidArguments"
| "delete_duplicate v world = Inl TypeError"

text \<open>
  Lines 551 to 570: no duplicate by path. When what is read of the hash at the
  identifier is truthy, a modal warning asks whether to replace it; only the answer
  \<^verbatim>\<open>Replace It\<close> deletes. In every other case, and after the deletion, the new statement
  is inserted before the first import.
\<close>

definition insert_stage :: "Host \<Rightarrow> FileItem \<Rightarrow> ImportStatementForReadOnly list \<Rightarrow> EditorPosition
    \<Rightarrow> Binding \<Rightarrow> World \<Rightarrow> World \<times> unit outcome" where
  "insert_stage host this existingImports beforeFirstImport binding world =
     (let insert_statement = (\<lambda>w.
            apply_insert host beforeFirstImport
              (getImportSnippet (Some (binding_name binding)) (import_path binding)
                 (syntax_option (file_options this) = UseImport) (file_options this)
                 (editor_document w))
              w);
          duplicateVariable = read_property (existingVariableHash existingImports) (iden binding)
      in if truthy duplicateVariable
         then (case showModalWarning (replace_question (iden binding)) world of
                 (ReplaceIt, world') \<Rightarrow>
                   (case duplicateVariable of
                      None \<Rightarrow> insert_statement world'
                    | Some found \<Rightarrow>
                        (case delete_duplicate found world' of
                           Inl ex \<Rightarrow> (world', Thrown ex)
                         | Inr world'' \<Rightarrow> insert_statement world''))
               | (answer, world') \<Rightarrow> insert_statement world')
         else insert_statement world)"

text \<open>
  \<^verbatim>\<open>addImport(editor)\<close> of a file item. A file of the working language gets a binding
  and goes through the parts above; a style sheet gets a bare import unless its path is
  imported already; any other file gets a bare \<^verbatim>\<open>require\<close> at the cursor.
\<close>

definition is_style_sheet :: "string \<Rightarrow> bool" where
  "is_style_sheet e = (e \<in> set [''css'', ''less'', ''sass'', ''scss'', ''styl''])"

definition addImport :: "Host \<Rightarrow> FileItem \<Rightarrow> World \<Rightarrow> World \<times> unit outcome" where
  "addImport host this world =
     (let document = editor_document world;
          existingImports = getExistingImports (parse host (getText document));
          directoryPathOfWorkingDocument = directoryPath (newFileInfo host (fileName document));
          beforeFirstImport =
            (case existingImports of
               [] \<Rightarrow> new_Position 0 0
             | first # others \<Rightarrow> editor_position (start_pos first))
      in case getNameAndRelativePath host this directoryPathOfWorkingDocument of
           Inl ex \<Rightarrow> (world, Thrown ex)
         | Inr (name, relativePath) \<Rightarrow>
             if extension this (fileExtensionWithoutLeadingDot (fileInfo this))
             then (case binding_stage host this directoryPathOfWorkingDocument existingImports
                          \<lparr>binding_name = name, iden = name, import_path = relativePath\<rparr> world of
                     Finished w \<Rightarrow> (w, Returned ())
                   | Failed w ex \<Rightarrow> (w, Thrown ex)
                   | Next binding w \<Rightarrow>
                       (case getDuplicateImport existingImports (import_path binding) of
                          Some duplicateImport \<Rightarrow> merge_stage host this duplicateImport binding w
                        | None \<Rightarrow>
                            insert_stage host this existingImports beforeFirstImport binding w))
             else if is_style_sheet (fileExtensionWithoutLeadingDot (fileInfo this))
             then (case getDuplicateImport existingImports relativePath of
                     Some duplicateImport \<Rightarrow>
                       notify_duplicate (already_imported (label this))
                         (start_pos duplicateImport) (end_pos duplicateImport) world
                   | None \<Rightarrow>
                       apply_insert host beforeFirstImport
                         (getImportSnippet None relativePath
                            (syntax_option (file_options this) = UseImport) (file_options this)
                            document)
                         world)
             else apply_insert host (cursor world)
                    (getImportSnippet None relativePath False (file_options this) document)
                    world)"


text \<open>
  What a run has shown and what it will be answered: the quick picks and the modal
  warnings among the events; whether the next quick pick will be dismissed; whether the
  next modal warning will be answered with \<^verbatim>\<open>Replace It\<close>.
\<close>

fun is_quick_pick :: "Event \<Rightarrow> bool" where
  "is_quick_pick (QuickPick labels) = True"
| "is_quick_pick e = False"

definition quick_picks :: "World \<Rightarrow> Event list" where
  "quick_picks world = filter is_quick_pick (events world)"

fun is_modal_warning :: "Event \<Rightarrow> bool" where
  "is_modal_warning (ModalWarning message) = True"
| "is_modal_warning e = False"

definition modal_warnings :: "World \<Rightarrow> Event list" where
  "modal_warnings world = filter is_modal_warning (events world)"

definition dismisses_pick :: "World \<Rightarrow> bool" where
  "dismisses_pick world = (case picks world of [] \<Rightarrow> True | a # rest \<Rightarrow> a = None)"

definition answers_replace :: "World \<Rightarrow> bool" where
  "answers_replace world = (case dialogs world of [] \<Rightarrow> False | a # rest \<Rightarrow> a = ReplaceIt)"






section \<open>An example host\<close>

text \<open>
  A small concrete host, used where a statement is evaluated on a concrete input:
  POSIX paths, a file system given as a table from paths to texts, and a parser given
  as a table from texts to trees. The library functions are instantiated trivially.
\<close>

fun normalize_segments :: "string list \<Rightarrow> string list \<Rightarrow> string list" where
  "normalize_segments acc [] = rev acc"
| "normalize_segments acc (seg # segs) =
     (if seg = [] \<or> seg = ''.'' then normalize_segments acc segs
      else if seg = ''..'' then normalize_segments (tl acc) segs
      else normalize_segments (seg # acc) segs)"

definition posix_resolve :: "string list \<Rightarrow> string" where
  "posix_resolve paths =
     ''/'' @ join_with ''/'' (normalize_segments [] (concat (map (split_on CHR ''/'') paths)))"

definition posix_basename :: "string \<Rightarrow> string" where
  "posix_basename p = rev (takeWhile (\<lambda>c. c \<noteq> CHR ''/'') (rev p))"

definition posix_dirname :: "string \<Rightarrow> string" where
  "posix_dirname p = rev (drop 1 (dropWhile (\<lambda>c. c \<noteq> CHR ''/'') (rev p)))"

definition posix_extname :: "string \<Rightarrow> string" where
  "posix_extname p =
     (if CHR ''.'' \<in> set (posix_basename p)
      then CHR ''.'' # rev (takeWhile (\<lambda>c. c \<noteq> CHR ''.'') (rev (posix_basename p)))
      else [])"

definition posix_file_info :: "string \<Rightarrow> FileInfo" where
  "posix_file_info p =
     \<lparr>fullPath = p, fullPathForPOSIX = p,
      fileNameWithExtension = posix_basename p,
      fileNameWithoutExtension =
        take (length (posix_basename p) - length (posix_extname p)) (posix_basename p),
      fileExtensionWithoutLeadingDot = drop 1 (posix_extname p),
      directoryName = posix_basename (posix_dirname p),
      directoryPath = posix_dirname p\<rparr>"

text \<open>
  The relative path from a directory to a file: up from the directory to the deepest
  common ancestor, then down to the file; \<^verbatim>\<open>./\<close> is put in front of a path that does
  not start with a dot.
\<close>

fun common_prefix_length :: "string list \<Rightarrow> string list \<Rightarrow> nat" where
  "common_prefix_length (x # xs) (y # ys) =
     (if x = y then Suc (common_prefix_length xs ys) else 0)"
| "common_prefix_length xs ys = 0"

definition posix_relative :: "string \<Rightarrow> string \<Rightarrow> string" where
  "posix_relative directory file =
     (let f = filter (\<lambda>s. s \<noteq> []) (split_on CHR ''/'' directory);
          t = filter (\<lambda>s. s \<noteq> []) (split_on CHR ''/'' file);
          n = common_prefix_length f t;
          r = join_with ''/'' (replicate (length f - n) ''..'' @ drop n t)
      in if take 1 r = ''.'' then r else ''./'' @ r)"

definition example_lodash :: Lodash where
  "example_lodash =
     \<lparr>camelCase = (\<lambda>s. s), snakeCase = (\<lambda>s. s), words = (\<lambda>s. [s]),
      upperFirst = (\<lambda>s. s), toLowerCase = (\<lambda>s. s)\<rparr>"

text \<open>
  \<open>example_host files trees\<close>: \<open>files\<close> maps a path to the text of the file there,
  \<open>trees\<close> a text to its syntax tree (a text without a tree does not parse). Files in
  the workspace folder of every file is \<^verbatim>\<open>/w\<close>; a rough search for a path finds the
  files named like its last part, with the extension appended; the call stack holds
  three nested calls of the export resolution, which is enough for the examples.
\<close>

definition example_host :: "(string \<times> string) list \<Rightarrow> (string \<times> File) list \<Rightarrow> Host" where
  "example_host files trees =
     \<lparr>newFileInfo = posix_file_info,
      getRelativePath = (\<lambda>info directory. posix_relative directory (fullPath info)),
      getSortablePath = (\<lambda>info document. directoryPath info),
      findFilesRoughly = (\<lambda>name extension.
         filter (\<lambda>p. posix_basename p = posix_basename name @ ''.'' @ extension) (map fst files)),
      existsSync = (\<lambda>p. p \<in> set (map fst files)),
      readFileSync = map_of files,
      babylon_parse = (\<lambda>code. case map_of trees code of None \<Rightarrow> Inl SyntaxError | Some t \<Rightarrow> Inr t),
      requireJson = (\<lambda>p. Inl FileNotFound),
      path_resolve = posix_resolve,
      path_join = posix_resolve,
      path_dirname = posix_dirname,
      path_extname = posix_extname,
      path_sep = CHR ''/'',
      findFiles = map fst files,
      getWorkspaceFolder = (\<lambda>p. ''/w''),
      lodash = example_lodash,
      stack_depth = 3,
      eslint_autofix = None\<rparr>"

text \<open>
  Two modules: \<^verbatim>\<open>/w/src/a.js\<close> is \<^verbatim>\<open>export { x as default, y }; export * from '../b'\<close>
  (the path resolves against the file's own path, so \<^verbatim>\<open>../b\<close> names its sibling), and
  \<^verbatim>\<open>/w/src/b.js\<close> is \<^verbatim>\<open>module.exports = { default: q, z: z }\<close>.
\<close>

definition example_modules :: Host where
  "example_modules = example_host
     [(''/w/src/a.js'', ''A''), (''/w/src/b.js'', ''B'')]
     [(''A'', \<lparr>program_body =
         [ExportNamedDeclaration None
            [\<lparr>exported_name = Some ''default'', export_local_name = Some ''x''\<rparr>,
             \<lparr>exported_name = Some ''y'', export_local_name = Some ''y''\<rparr>] None,
          ExportAllDeclaration ''../b'']\<rparr>),
      (''B'', \<lparr>program_body =
         [ExpressionStatement \<lparr>loc_start = \<lparr>line = 1, column = 0\<rparr>, loc_end = \<lparr>line = 1, column = 36\<rparr>\<rparr>
            (AssignmentExpression (MemberExpression (Identifier ''module'') (Identifier ''exports''))
               (ObjectExpression
                  [ObjectProperty (Identifier ''default'') (Identifier ''q''),
                   ObjectProperty (Identifier ''z'') (Identifier ''z'')]))]\<rparr>)]"


text \<open>
  The options of the examples: import syntax, grouping, no file extensions, single
  quotes, no semicolons, no rules, the fallback naming convention.
\<close>

definition example_options :: LanguageOptions where
  "example_options =
     \<lparr>syntax_option = UseImport, grouping = True, fileExtension = False, indexFile = False,
      quoteCharacter = Single, semiColons = False, predefinedVariableNames = [],
      variableNamingConvention = NoConvention, filteredFileList = []\<rparr>"

text \<open>A workspace \<^verbatim>\<open>/w\<close> with the two files \<^verbatim>\<open>a.js\<close> and \<^verbatim>\<open>b.js\<close>; \<^verbatim>\<open>a.js\<close> is open.\<close>

definition example_workspace :: Host where
  "example_workspace = example_host [(''/w/a.js'', ''A''), (''/w/b.js'', ''B'')] []"

definition example_open_a :: TextDocument where
  "example_open_a =
     \<lparr>languageId = ''javascript'', fileName = ''/w/a.js'', doc_lines = [''A''], eol_crlf = False\<rparr>"


text \<open>
  A document with a broken import: \<^verbatim>\<open>/w/src/doc.js\<close> is the one line
  \<^verbatim>\<open>import x from './old/helper'\<close>; there is no \<^verbatim>\<open>/w/src/old/helper\<close>, and the only
  file named \<^verbatim>\<open>helper.js\<close> is \<^verbatim>\<open>/w/lib/helper.js\<close>.
\<close>

definition sq :: string where
  "sq = [CHR 0x27]"

definition broken_import_text :: string where
  "broken_import_text = ''import x from '' @ sq @ ''./old/helper'' @ sq"

definition broken_import_tree :: File where
  "broken_import_tree =
     \<lparr>program_body =
        [ImportDeclaration \<lparr>loc_start = \<lparr>line = 1, column = 0\<rparr>, loc_end = \<lparr>line = 1, column = 28\<rparr>\<rparr>
           [\<lparr>spec_type = ImportDefaultSpecifier, imported_name = None, local_name = ''x'',
             spec_loc = \<lparr>loc_start = \<lparr>line = 1, column = 7\<rparr>, loc_end = \<lparr>line = 1, column = 8\<rparr>\<rparr>,
             spec_start = 7, spec_end = 8\<rparr>]
           ''./old/helper''
           \<lparr>loc_start = \<lparr>line = 1, column = 14\<rparr>, loc_end = \<lparr>line = 1, column = 28\<rparr>\<rparr>]\<rparr>"

definition broken_import_host :: Host where
  "broken_import_host = example_host
     [(''/w/src/doc.js'', broken_import_text), (''/w/lib/helper.js'', ''H'')]
     [(broken_import_text, broken_import_tree)]"

definition broken_import_world :: World where
  "broken_import_world =
     \<lparr>editor_document =
        \<lparr>languageId = ''javascript'', fileName = ''/w/src/doc.js'',
         doc_lines = [broken_import_text], eol_crlf = False\<rparr>,
      cursor = \<lparr>pos_line = 0, pos_character = 0\<rparr>,
      events = [], picks = [], dialogs = [], cancellations = []\<rparr>"

text \<open>
  A document with a broken require whose path holds a question mark:
  \<^verbatim>\<open>/w/src/doc.js\<close> is the one line \<^verbatim>\<open>const u = require('./util?raw')\<close>, and the only
  file named \<^verbatim>\<open>util?raw.js\<close> is \<^verbatim>\<open>/w/lib/util?raw.js\<close>.
\<close>

definition loader_require_text :: string where
  "loader_require_text = ''const u = require('' @ sq @ ''./util?raw'' @ sq @ '')''"

definition loader_require_tree :: File where
  "loader_require_tree =
     \<lparr>program_body =
        [VariableDeclaration \<lparr>loc_start = \<lparr>line = 1, column = 0\<rparr>, loc_end = \<lparr>line = 1, column = 31\<rparr>\<rparr>
           [VariableDeclarator (Identifier ''u'')
              (Some (CallExpression (Identifier ''require'')
                 [StringLiteral ''./util?raw''
                    \<lparr>loc_start = \<lparr>line = 1, column = 18\<rparr>, loc_end = \<lparr>line = 1, column = 30\<rparr>\<rparr>]))]]\<rparr>"

definition loader_require_host :: Host where
  "loader_require_host = example_host
     [(''/w/src/doc.js'', loader_require_text), (''/w/lib/util?raw.js'', ''U'')]
     [(loader_require_text, loader_require_tree)]"

definition loader_require_world :: World where
  "loader_require_world =
     \<lparr>editor_document =
        \<lparr>languageId = ''javascript'', fileName = ''/w/src/doc.js'',
         doc_lines = [loader_require_text], eol_crlf = False\<rparr>,
      cursor = \<lparr>pos_line = 0, pos_character = 0\<rparr>,
      events = [], picks = [], dialogs = [], cancellations = []\<rparr>"

text \<open>
  A document that does not parse: \<^verbatim>\<open>/w/src/doc.js\<close> is the one line \<^verbatim>\<open>import {\<close>.
\<close>

definition malformed_host :: Host where
  "malformed_host = example_host [(''/w/src/doc.js'', ''import {'')] []"

definition malformed_world :: World where
  "malformed_world =
     \<lparr>editor_document =
        \<lparr>languageId = ''javascript'', fileName = ''/w/src/doc.js'',
         doc_lines = [''import {''], eol_crlf = False\<rparr>,
      cursor = \<lparr>pos_line = 0, pos_character = 0\<rparr>,
      events = [], picks = [], dialogs = [], cancellations = []\<rparr>"


text \<open>
  A document that imports \<^verbatim>\<open>a\<close> from a module which exports \<^verbatim>\<open>a\<close> and \<^verbatim>\<open>b\<close>:
  \<^verbatim>\<open>/w/src/app.js\<close> is the one line \<^verbatim>\<open>import { a } from './m'\<close>, and \<^verbatim>\<open>/w/src/m.js\<close> is
  \<^verbatim>\<open>export const a = 1\<close> and \<^verbatim>\<open>export const b = 2\<close>.
\<close>

definition import_a_text :: string where
  "import_a_text = ''import { a } from '' @ sq @ ''./m'' @ sq"

definition import_a_specifier :: Specifier where
  "import_a_specifier =
     \<lparr>spec_type = ImportSpecifier, imported_name = Some ''a'', local_name = ''a'',
      spec_loc = \<lparr>loc_start = \<lparr>line = 1, column = 9\<rparr>, loc_end = \<lparr>line = 1, column = 10\<rparr>\<rparr>,
      spec_start = 9, spec_end = 10\<rparr>"

definition import_a_location :: SourceLocation where
  "import_a_location = \<lparr>loc_start = \<lparr>line = 1, column = 0\<rparr>, loc_end = \<lparr>line = 1, column = 23\<rparr>\<rparr>"

definition import_a_declaration :: node where
  "import_a_declaration =
     ImportDeclaration import_a_location [import_a_specifier] ''./m''
       \<lparr>loc_start = \<lparr>line = 1, column = 18\<rparr>, loc_end = \<lparr>line = 1, column = 23\<rparr>\<rparr>"

definition module_m_tree :: File where
  "module_m_tree =
     \<lparr>program_body =
        [ExportNamedDeclaration
           (Some (VariableDeclaration
                    \<lparr>loc_start = \<lparr>line = 1, column = 7\<rparr>, loc_end = \<lparr>line = 1, column = 18\<rparr>\<rparr>
                    [VariableDeclarator (Identifier ''a'') (Some (OtherNode ''NumericLiteral'' []))]))
           [] None,
         ExportNamedDeclaration
           (Some (VariableDeclaration
                    \<lparr>loc_start = \<lparr>line = 2, column = 7\<rparr>, loc_end = \<lparr>line = 2, column = 18\<rparr>\<rparr>
                    [VariableDeclarator (Identifier ''b'') (Some (OtherNode ''NumericLiteral'' []))]))
           [] None]\<rparr>"

definition import_a_tree :: File where
  "import_a_tree = \<lparr>program_body = [import_a_declaration]\<rparr>"

definition import_a_host :: Host where
  "import_a_host = example_host
     [(''/w/src/app.js'', import_a_text), (''/w/src/m.js'', ''M'')]
     [(import_a_text, import_a_tree), (''M'', module_m_tree)]"

definition module_m_item :: FileItem where
  "module_m_item =
     new_FileItem import_a_host ''/w/src/m.js'' ''/w'' example_options (WORKING_EXTENSION False)"

text \<open>The world in which the user will select the entry of a quick pick at an index.\<close>

definition import_a_world :: "nat option list \<Rightarrow> World" where
  "import_a_world answers =
     \<lparr>editor_document =
        \<lparr>languageId = ''javascript'', fileName = ''/w/src/app.js'',
         doc_lines = [import_a_text], eol_crlf = False\<rparr>,
      cursor = \<lparr>pos_line = 0, pos_character = 0\<rparr>,
      events = [], picks = answers, dialogs = [], cancellations = []\<rparr>"


text \<open>
  A document that binds \<^verbatim>\<open>m\<close> already: \<^verbatim>\<open>/w/src/app.js\<close> is the one line
  \<^verbatim>\<open>import m from './n'\<close>, and \<^verbatim>\<open>/w/src/m.js\<close> is \<^verbatim>\<open>export default 1\<close>.
\<close>

definition conflict_text :: string where
  "conflict_text = ''import m from '' @ sq @ ''./n'' @ sq"

definition conflict_tree :: File where
  "conflict_tree =
     \<lparr>program_body =
        [ImportDeclaration
           \<lparr>loc_start = \<lparr>line = 1, column = 0\<rparr>, loc_end = \<lparr>line = 1, column = 19\<rparr>\<rparr>
           [\<lparr>spec_type = ImportDefaultSpecifier, imported_name = None, local_name = ''m'',
             spec_loc = \<lparr>loc_start = \<lparr>line = 1, column = 7\<rparr>, loc_end = \<lparr>line = 1, column = 8\<rparr>\<rparr>,
             spec_start = 7, spec_end = 8\<rparr>]
           ''./n''
           \<lparr>loc_start = \<lparr>line = 1, column = 14\<rparr>, loc_end = \<lparr>line = 1, column = 19\<rparr>\<rparr>]\<rparr>"

definition conflict_host :: Host where
  "conflict_host = example_host
     [(''/w/src/app.js'', conflict_text), (''/w/src/m.js'', ''D'')]
     [(conflict_text, conflict_tree),
      (''D'', \<lparr>program_body = [ExportDefaultDeclaration (OtherNode ''NumericLiteral'' [])]\<rparr>)]"

definition conflict_item :: FileItem where
  "conflict_item =
     new_FileItem conflict_host ''/w/src/m.js'' ''/w'' example_options (WORKING_EXTENSION False)"

text \<open>The world in which the user will answer the modal warnings as listed.\<close>

definition conflict_world :: "DialogAnswer list \<Rightarrow> World" where
  "conflict_world answers =
     \<lparr>editor_document =
        \<lparr>languageId = ''javascript'', fileName = ''/w/src/app.js'',
         doc_lines = [conflict_text], eol_crlf = False\<rparr>,
      cursor = \<lparr>pos_line = 0, pos_character = 0\<rparr>,
      events = [], picks = [], dialogs = answers, cancellations = []\<rparr>"

text \<open>
  A document that binds \<^verbatim>\<open>__proto__\<close>: \<^verbatim>\<open>/w/src/app.js\<close> is the one line
  \<^verbatim>\<open>import __proto__ from './x'\<close>, and \<^verbatim>\<open>/w/src/node.js\<close> is \<^verbatim>\<open>export default 1\<close>.
\<close>

definition prototype_text :: string where
  "prototype_text = ''import __proto__ from '' @ sq @ ''./x'' @ sq"

definition prototype_tree :: File where
  "prototype_tree =
     \<lparr>program_body =
        [ImportDeclaration
           \<lparr>loc_start = \<lparr>line = 1, column = 0\<rparr>, loc_end = \<lparr>line = 1, column = 27\<rparr>\<rparr>
           [\<lparr>spec_type = ImportDefaultSpecifier, imported_name = None,
             local_name = ''__proto__'',
             spec_loc = \<lparr>loc_start = \<lparr>line = 1, column = 7\<rparr>, loc_end = \<lparr>line = 1, column = 16\<rparr>\<rparr>,
             spec_start = 7, spec_end = 16\<rparr>]
           ''./x''
           \<lparr>loc_start = \<lparr>line = 1, column = 22\<rparr>, loc_end = \<lparr>line = 1, column = 27\<rparr>\<rparr>]\<rparr>"

definition prototype_host :: Host where
  "prototype_host = example_host
     [(''/w/src/app.js'', prototype_text), (''/w/src/node.js'', ''D'')]
     [(prototype_text, prototype_tree),
      (''D'', \<lparr>program_body = [ExportDefaultDeclaration (OtherNode ''NumericLiteral'' [])]\<rparr>)]"

definition prototype_item :: FileItem where
  "prototype_item =
     new_FileItem prototype_host ''/w/src/node.js'' ''/w'' example_options (WORKING_EXTENSION False)"

definition prototype_world :: "DialogAnswer list \<Rightarrow> World" where
  "prototype_world answers =
     \<lparr>editor_document =
        \<lparr>languageId = ''javascript'', fileName = ''/w/src/app.js'',
         doc_lines = [prototype_text], eol_crlf = False\<rparr>,
      cursor = \<lparr>pos_line = 0, pos_character = 0\<rparr>,
      events = [], picks = [], dialogs = answers, cancellations = []\<rparr>"

text \<open>
  Documents of more than one line beside the module \<^verbatim>\<open>/w/src/m.js\<close>: the document
  \<^verbatim>\<open>/w/src/app.js\<close> with given lines, the host in which it parses to a given tree, and
  the world in which the user will select the entry of a quick pick at an index.
\<close>

definition app_document :: "string list \<Rightarrow> TextDocument" where
  "app_document lines =
     \<lparr>languageId = ''javascript'', fileName = ''/w/src/app.js'', doc_lines = lines,
      eol_crlf = False\<rparr>"

definition module_m_host :: "string list \<Rightarrow> File \<Rightarrow> Host" where
  "module_m_host lines tree = example_host
     [(''/w/src/app.js'', getText (app_document lines)), (''/w/src/m.js'', ''M'')]
     [(getText (app_document lines), tree), (''M'', module_m_tree)]"

definition module_m_world :: "string list \<Rightarrow> nat option list \<Rightarrow> World" where
  "module_m_world lines answers =
     \<lparr>editor_document = app_document lines,
      cursor = \<lparr>pos_line = 0, pos_character = 0\<rparr>,
      events = [], picks = answers, dialogs = [], cancellations = []\<rparr>"

text \<open>The entry that \<^verbatim>\<open>getExistingImports\<close> makes of an import declaration.\<close>

definition entry_of :: "node \<Rightarrow> ImportStatementForReadOnly" where
  "entry_of declaration = hd (import_declaration_stubs declaration)"

text \<open>
  The declaration \<^verbatim>\<open>import { name } from './m'\<close> for a name of one character, on a
  line (counted from 1) that starts at an offset of the text.
\<close>

definition named_import_of_m :: "string \<Rightarrow> nat \<Rightarrow> nat \<Rightarrow> node" where
  "named_import_of_m name line_number offset =
     ImportDeclaration
       \<lparr>loc_start = \<lparr>line = line_number, column = 0\<rparr>,
        loc_end = \<lparr>line = line_number, column = 23\<rparr>\<rparr>
       [\<lparr>spec_type = ImportSpecifier, imported_name = Some name, local_name = name,
         spec_loc = \<lparr>loc_start = \<lparr>line = line_number, column = 9\<rparr>,
                     loc_end = \<lparr>line = line_number, column = 10\<rparr>\<rparr>,
         spec_start = offset + 9, spec_end = offset + 10\<rparr>]
       ''./m''
       \<lparr>loc_start = \<lparr>line = line_number, column = 18\<rparr>,
        loc_end = \<lparr>line = line_number, column = 23\<rparr>\<rparr>"

text \<open>
  Two imports of two paths: the lines \<^verbatim>\<open>import x from './n'\<close> and
  \<^verbatim>\<open>import { a } from './m'\<close>.
\<close>

definition two_paths_lines :: "string list" where
  "two_paths_lines =
     [''import x from '' @ sq @ ''./n'' @ sq, ''import { a } from '' @ sq @ ''./m'' @ sq]"

definition import_x_declaration :: node where
  "import_x_declaration =
     ImportDeclaration
       \<lparr>loc_start = \<lparr>line = 1, column = 0\<rparr>, loc_end = \<lparr>line = 1, column = 19\<rparr>\<rparr>
       [\<lparr>spec_type = ImportDefaultSpecifier, imported_name = None, local_name = ''x'',
         spec_loc = \<lparr>loc_start = \<lparr>line = 1, column = 7\<rparr>, loc_end = \<lparr>line = 1, column = 8\<rparr>\<rparr>,
         spec_start = 7, spec_end = 8\<rparr>]
       ''./n''
       \<lparr>loc_start = \<lparr>line = 1, column = 14\<rparr>, loc_end = \<lparr>line = 1, column = 19\<rparr>\<rparr>"

definition two_paths_tree :: File where
  "two_paths_tree = \<lparr>program_body = [import_x_declaration, named_import_of_m ''a'' 2 20]\<rparr>"

text \<open>
  Two imports of one path: the lines \<^verbatim>\<open>import { a } from './m'\<close> and
  \<^verbatim>\<open>import { b } from './m'\<close>.
\<close>

definition same_path_lines :: "string list" where
  "same_path_lines =
     [''import { a } from '' @ sq @ ''./m'' @ sq, ''import { b } from '' @ sq @ ''./m'' @ sq]"

definition same_path_tree :: File where
  "same_path_tree =
     \<lparr>program_body = [named_import_of_m ''a'' 1 0, named_import_of_m ''b'' 2 24]\<rparr>"

text \<open>
  A document with two broken requires on one line: \<^verbatim>\<open>/w/src/doc.js\<close> is the one line
  \<^verbatim>\<open>f(require('./old/a'), require('./old/b'))\<close>; there is no directory \<^verbatim>\<open>/w/src/old\<close>,
  the only file named \<^verbatim>\<open>a.js\<close> is \<^verbatim>\<open>/w/lib/a.js\<close> and the only file named \<^verbatim>\<open>b.js\<close>
  is \<^verbatim>\<open>/w/lib/b.js\<close>.
\<close>

definition two_requires_text :: string where
  "two_requires_text =
     ''f(require('' @ sq @ ''./old/a'' @ sq @ ''), require('' @ sq @ ''./old/b'' @ sq @ ''))''"

definition two_requires_tree :: File where
  "two_requires_tree =
     \<lparr>program_body =
        [ExpressionStatement
           \<lparr>loc_start = \<lparr>line = 1, column = 0\<rparr>, loc_end = \<lparr>line = 1, column = 41\<rparr>\<rparr>
           (CallExpression (Identifier ''f'')
              [CallExpression (Identifier ''require'')
                 [StringLiteral ''./old/a''
                    \<lparr>loc_start = \<lparr>line = 1, column = 10\<rparr>, loc_end = \<lparr>line = 1, column = 19\<rparr>\<rparr>],
               CallExpression (Identifier ''require'')
                 [StringLiteral ''./old/b''
                    \<lparr>loc_start = \<lparr>line = 1, column = 30\<rparr>, loc_end = \<lparr>line = 1, column = 39\<rparr>\<rparr>]])]\<rparr>"

definition two_requires_host :: Host where
  "two_requires_host = example_host
     [(''/w/src/doc.js'', two_requires_text), (''/w/lib/a.js'', ''A''), (''/w/lib/b.js'', ''B'')]
     [(two_requires_text, two_requires_tree)]"

definition two_requires_world :: World where
  "two_requires_world =
     \<lparr>editor_document =
        \<lparr>languageId = ''javascript'', fileName = ''/w/src/doc.js'',
         doc_lines = [two_requires_text], eol_crlf = False\<rparr>,
      cursor = \<lparr>pos_line = 0, pos_character = 0\<rparr>,
      events = [], picks = [], dialogs = [], cancellations = []\<rparr>"

text \<open>
  A document with a broken import of a file whose name is a number: \<^verbatim>\<open>/w/src/doc.js\<close>
  is the one line \<^verbatim>\<open>import x from './old/2048'\<close>, and the only file named \<^verbatim>\<open>2048.js\<close>
  is \<^verbatim>\<open>/w/lib/2048.js\<close>.
\<close>

definition number_name_text :: string where
  "number_name_text = ''import x from '' @ sq @ ''./old/2048'' @ sq"

definition number_name_tree :: File where
  "number_name_tree =
     \<lparr>program_body =
        [ImportDeclaration \<lparr>loc_start = \<lparr>line = 1, column = 0\<rparr>, loc_end = \<lparr>line = 1, column = 26\<rparr>\<rparr>
           [\<lparr>spec_type = ImportDefaultSpecifier, imported_name = None, local_name = ''x'',
             spec_loc = \<lparr>loc_start = \<lparr>line = 1, column = 7\<rparr>, loc_end = \<lparr>line = 1, column = 8\<rparr>\<rparr>,
             spec_start = 7, spec_end = 8\<rparr>]
           ''./old/2048''
           \<lparr>loc_start = \<lparr>line = 1, column = 14\<rparr>, loc_end = \<lparr>line = 1, column = 26\<rparr>\<rparr>]\<rparr>"

definition number_name_host :: Host where
  "number_name_host = example_host
     [(''/w/src/doc.js'', number_name_text), (''/w/lib/2048.js'', ''N'')]
     [(number_name_text, number_name_tree)]"

definition number_name_world :: World where
  "number_name_world =
     \<lparr>editor_document =
        \<lparr>languageId = ''javascript'', fileName = ''/w/src/doc.js'',
         doc_lines = [number_name_text], eol_crlf = False\<rparr>,
      cursor = \<lparr>pos_line = 0, pos_character = 0\<rparr>,
      events = [], picks = [], dialogs = [], cancellations = []\<rparr>"

section \<open>Properties of the recency tracker\<close>


























section \<open>The binding-name transform is partial\<close>

lemma concat_singletons: "concat (map (\<lambda>c. [c]) cs) = cs"
  by (induction cs) simp_all

lemma getVariableName_fallback:
  assumes "those (map fst (predefinedVariableNames options)) = Some patterns"
    and "\<forall>p\<in>set patterns. \<not> test p name"
    and "variableNamingConvention options = NoConvention"
  shows "getVariableName lib name options =
           (if filter identifier_char (dropWhile is_digit name) = [] then Inl TypeError
            else Inr (filter identifier_char (dropWhile is_digit name)))"
proof -
  have "find (\<lambda>rule. test (fst rule) name)
          (zip patterns (map snd (predefinedVariableNames options))) = None"
    using assms(2) by (auto simp: find_None_iff dest: set_zip_leftD)
  then show ?thesis
    using assms(1,3)
    by (simp add: getVariableName_def match_identifier_chars_def Let_def concat_singletons)
qed

text \<open>
  Claim C8. The binding-name transform is not total. With no predefined rule and the
  fallback convention the raw name \<^verbatim>\<open>0\<close> makes it throw a \<^verbatim>\<open>TypeError\<close>: the name is
  empty after the leading digits are stripped, and \<^verbatim>\<open>match\<close> returns \<^verbatim>\<open>null\<close>. In
  general, when the patterns compile, none matches and the fallback convention is
  configured, the transform throws exactly when no character of the stripped name passes
  the character filter, and returns the filtered name otherwise. The filter keeps the
  digits 1 to 9 and drops the digit 0: \<^verbatim>\<open>a0b1\<close> becomes \<^verbatim>\<open>ab1\<close>.
\<close>

theorem getVariableName_not_total:
  "getVariableName lib ''0''
      (options\<lparr>predefinedVariableNames := [], variableNamingConvention := NoConvention\<rparr>)
     = Inl TypeError \<and>
   (those (map fst (predefinedVariableNames options)) = Some patterns \<and>
    (\<forall>p\<in>set patterns. \<not> test p name) \<and>
    variableNamingConvention options = NoConvention \<longrightarrow>
      (getVariableName lib name options = Inl TypeError
         \<longleftrightarrow> filter identifier_char (dropWhile is_digit name) = []) \<and>
      (filter identifier_char (dropWhile is_digit name) \<noteq> [] \<longrightarrow>
         getVariableName lib name options
           = Inr (filter identifier_char (dropWhile is_digit name)))) \<and>
   (\<forall>c\<in>set ''123456789''. identifier_char c) \<and>
   \<not> identifier_char CHR ''0'' \<and>
   getVariableName lib ''a0b1''
      (options\<lparr>predefinedVariableNames := [], variableNamingConvention := NoConvention\<rparr>)
     = Inr ''ab1''"
proof (intro conjI impI)
  let ?o = "options\<lparr>predefinedVariableNames := [], variableNamingConvention := NoConvention\<rparr>"
  have none: "those (map fst (predefinedVariableNames ?o)) = Some []"
    "\<forall>p\<in>set []. \<not> test p n" "variableNamingConvention ?o = NoConvention" for n
    by simp_all
  show "getVariableName lib ''0'' ?o = Inl TypeError"
    by (simp add: getVariableName_fallback [OF none] is_digit_def)
  show "getVariableName lib ''a0b1'' ?o = Inr ''ab1''"
    by (simp add: getVariableName_fallback [OF none] is_digit_def identifier_char_def)
  show "\<forall>c\<in>set ''123456789''. identifier_char c"
    by (simp add: identifier_char_def)
  show "\<not> identifier_char CHR ''0''"
    by (simp add: identifier_char_def)
next
  assume a: "those (map fst (predefinedVariableNames options)) = Some patterns \<and>
    (\<forall>p\<in>set patterns. \<not> test p name) \<and>
    variableNamingConvention options = NoConvention"
  then have eq: "getVariableName lib name options =
           (if filter identifier_char (dropWhile is_digit name) = [] then Inl TypeError
            else Inr (filter identifier_char (dropWhile is_digit name)))"
    by (intro getVariableName_fallback) blast+
  show "getVariableName lib name options = Inl TypeError
         \<longleftrightarrow> filter identifier_char (dropWhile is_digit name) = []"
    by (simp add: eq)
  show "getVariableName lib name options
           = Inr (filter identifier_char (dropWhile is_digit name))"
    if "filter identifier_char (dropWhile is_digit name) \<noteq> []"
    using that by (simp add: eq)
qed

text \<open>
  Witness for C8: one predefined rule, which matches names starting with \<^verbatim>\<open>@\<close> only,
  and the raw name \<^verbatim>\<open>2048\<close>: nothing is left after the digits are stripped. The
  library functions, which this branch never calls, are instantiated trivially.
\<close>

theorem getVariableName_not_total_witness:
  "those (map fst (predefinedVariableNames
      \<lparr>syntax_option = UseImport, grouping = True, fileExtension = False, indexFile = False,
       quoteCharacter = Single, semiColons = False,
       predefinedVariableNames =
         [(Some \<lparr>test = (\<lambda>s. take 1 s = ''@''), replace = (\<lambda>s out. out)\<rparr>, ''scoped'')],
       variableNamingConvention = NoConvention, filteredFileList = []\<rparr>))
     = Some [\<lparr>test = (\<lambda>s. take 1 s = ''@''), replace = (\<lambda>s out. out)\<rparr>] \<and>
   filter identifier_char (dropWhile is_digit ''2048'') = [] \<and>
   getVariableName
      \<lparr>camelCase = (\<lambda>s. s), snakeCase = (\<lambda>s. s), words = (\<lambda>s. [s]),
        upperFirst = (\<lambda>s. s), toLowerCase = (\<lambda>s. s)\<rparr>
      ''2048''
      \<lparr>syntax_option = UseImport, grouping = True, fileExtension = False, indexFile = False,
       quoteCharacter = Single, semiColons = False,
       predefinedVariableNames =
         [(Some \<lparr>test = (\<lambda>s. take 1 s = ''@''), replace = (\<lambda>s out. out)\<rparr>, ''scoped'')],
       variableNamingConvention = NoConvention, filteredFileList = []\<rparr>
     = Inl TypeError"
proof -
  let ?lib = "\<lparr>camelCase = (\<lambda>s. s), snakeCase = (\<lambda>s. s), words = (\<lambda>s. [s]),
        upperFirst = (\<lambda>s. s), toLowerCase = (\<lambda>s. s)\<rparr>"
  let ?p = "\<lparr>test = (\<lambda>s. take 1 s = ''@''), replace = (\<lambda>s out. out)\<rparr>"
  let ?o = "\<lparr>syntax_option = UseImport, grouping = True, fileExtension = False, indexFile = False,
       quoteCharacter = Single, semiColons = False,
       predefinedVariableNames = [(Some ?p, ''scoped'')],
       variableNamingConvention = NoConvention, filteredFileList = []\<rparr>"
  have t: "those (map fst (predefinedVariableNames ?o)) = Some [?p]" by simp
  have n: "\<forall>p\<in>set [?p]. \<not> test p ''2048''" by simp
  have c: "variableNamingConvention ?o = NoConvention" by simp
  have e: "filter identifier_char (dropWhile is_digit ''2048'') = []"
    by (simp add: is_digit_def)
  from getVariableName_not_total [of ?lib ?o "[?p]" "''2048''"] t n c e
  have "getVariableName ?lib ''2048'' ?o = Inl TypeError" by blast
  with t e show ?thesis by simp
qed

section \<open>Existing imports: recorded paths and ranges\<close>

lemma trimEnd_decompose: "s = trimEnd s c @ replicate (length (takeWhile (\<lambda>x. x = c) (rev s))) c"
proof -
  let ?t = "takeWhile (\<lambda>x. x = c) (rev s)"
  have "\<forall>x\<in>set ?t. x = c" by (auto dest: set_takeWhileD)
  then have t: "?t = replicate (length ?t) c"
    by (simp add: replicate_length_same)
  have "rev s = ?t @ dropWhile (\<lambda>x. x = c) (rev s)" by simp
  then have "s = rev (dropWhile (\<lambda>x. x = c) (rev s)) @ rev ?t"
    by (metis rev_append rev_rev_ident)
  also have "rev ?t = replicate (length ?t) c"
    using t by (metis rev_replicate)
  finally show ?thesis by (simp add: trimEnd_def)
qed

lemma trimEnd_no_trailing: "trimEnd s c = [] \<or> last (trimEnd s c) \<noteq> c"
proof (cases "dropWhile (\<lambda>x. x = c) (rev s)")
  case Nil
  then show ?thesis by (simp add: trimEnd_def)
next
  case (Cons a as)
  then have "a \<noteq> c"
    using hd_dropWhile [of "\<lambda>x. x = c" "rev s"] by simp
  with Cons show ?thesis by (simp add: trimEnd_def)
qed

lemma import_declaration_stubs_ex:
  assumes "e \<in> set (import_declaration_stubs s)"
  shows "\<exists>l specifiers source sl. s = ImportDeclaration l specifiers source sl
    \<and> node_of e = s \<and> path e = Some (trimEnd source CHR ''/'')
    \<and> start_pos e = loc_start l \<and> end_pos e = loc_end l"
  using assms by (cases s) simp_all

lemma require_declaration_stubs_ex:
  assumes "e \<in> set (require_declaration_stubs s)"
  shows "\<exists>l declarations. s = VariableDeclaration l declarations
    \<and> node_of e \<in> set declarations \<and> MODULE_REQUIRE (node_of e)
    \<and> start_pos e = loc_start l \<and> end_pos e = loc_end l"
  using assms by (cases s) auto

lemma require_immediate_stubs_ex:
  assumes "e \<in> set (require_immediate_stubs s)"
  shows "\<exists>l callee a. s = ExpressionStatement l (CallExpression callee [a])
    \<and> MODULE_REQUIRE_IMMEDIATE s \<and> node_of e = s
    \<and> start_pos e = loc_start l \<and> end_pos e = loc_end l"
proof -
  from assms obtain l x where s: "s = ExpressionStatement l x"
    by (cases s) auto
  with assms obtain callee arguments where x: "x = CallExpression callee arguments"
    by (cases x) auto
  from assms s x have m: "MODULE_REQUIRE_IMMEDIATE s" and len: "length arguments = 1"
    by (simp_all split: if_splits)
  from len obtain a where a: "arguments = [a]"
    by (cases arguments) auto
  from assms s x m len have "node_of e = s \<and> start_pos e = loc_start l \<and> end_pos e = loc_end l"
    by (simp split: if_splits)
  then show ?thesis using s x a m by simp
qed

lemma getExistingImports_origin:
  assumes "e \<in> set (getExistingImports (Some tree))"
  shows "(\<exists>s. s \<in> set (program_body tree) \<and> e \<in> set (import_declaration_stubs s)) \<or>
     (\<exists>s. s \<in> set (program_body tree) \<and> e \<in> set (require_declaration_stubs s)) \<or>
     (\<exists>s. s \<in> set (program_body tree) \<and> e \<in> set (require_immediate_stubs s))"
  using assms unfolding getExistingImports_def
  by (simp only: option.case set_append set_concat set_map Un_iff UN_iff bex_simps image_iff) blast

text \<open>
  Claim C5, as the code has it. Every entry that \<^verbatim>\<open>getExistingImports\<close> extracts
  comes from a statement of the program body of one of three forms, and its range is the
  \<^verbatim>\<open>loc\<close> of that statement: an import declaration (the entry's node), a variable
  declaration (the entry's node is one of its declarators, matching \<^verbatim>\<open>MODULE_REQUIRE\<close>),
  or an expression statement calling \<^verbatim>\<open>require\<close> with one argument (the entry's node).
  For an import declaration the recorded path is the source literal with all its trailing
  slashes trimmed: the literal is the path followed by slashes only, and the path does
  not end in a slash.
\<close>

theorem getExistingImports_entries:
  "\<forall>e\<in>set (getExistingImports (Some tree)).
     (\<exists>l specifiers source sl n.
        ImportDeclaration l specifiers source sl \<in> set (program_body tree) \<and>
        node_of e = ImportDeclaration l specifiers source sl \<and>
        path e = Some (trimEnd source CHR ''/'') \<and>
        source = trimEnd source CHR ''/'' @ replicate n CHR ''/'' \<and>
        (trimEnd source CHR ''/'' = [] \<or> last (trimEnd source CHR ''/'') \<noteq> CHR ''/'') \<and>
        start_pos e = loc_start l \<and> end_pos e = loc_end l) \<or>
     (\<exists>l declarations.
        VariableDeclaration l declarations \<in> set (program_body tree) \<and>
        node_of e \<in> set declarations \<and> MODULE_REQUIRE (node_of e) \<and>
        start_pos e = loc_start l \<and> end_pos e = loc_end l) \<or>
     (\<exists>l callee a.
        ExpressionStatement l (CallExpression callee [a]) \<in> set (program_body tree) \<and>
        node_of e = ExpressionStatement l (CallExpression callee [a]) \<and>
        MODULE_REQUIRE_IMMEDIATE (node_of e) \<and>
        start_pos e = loc_start l \<and> end_pos e = loc_end l)"
proof
  fix e
  assume "e \<in> set (getExistingImports (Some tree))"
  then consider
      s where "s \<in> set (program_body tree)" "e \<in> set (import_declaration_stubs s)"
    | s where "s \<in> set (program_body tree)" "e \<in> set (require_declaration_stubs s)"
    | s where "s \<in> set (program_body tree)" "e \<in> set (require_immediate_stubs s)"
    using getExistingImports_origin by blast
  then show "(\<exists>l specifiers source sl n.
        ImportDeclaration l specifiers source sl \<in> set (program_body tree) \<and>
        node_of e = ImportDeclaration l specifiers source sl \<and>
        path e = Some (trimEnd source CHR ''/'') \<and>
        source = trimEnd source CHR ''/'' @ replicate n CHR ''/'' \<and>
        (trimEnd source CHR ''/'' = [] \<or> last (trimEnd source CHR ''/'') \<noteq> CHR ''/'') \<and>
        start_pos e = loc_start l \<and> end_pos e = loc_end l) \<or>
     (\<exists>l declarations.
        VariableDeclaration l declarations \<in> set (program_body tree) \<and>
        node_of e \<in> set declarations \<and> MODULE_REQUIRE (node_of e) \<and>
        start_pos e = loc_start l \<and> end_pos e = loc_end l) \<or>
     (\<exists>l callee a.
        ExpressionStatement l (CallExpression callee [a]) \<in> set (program_body tree) \<and>
        node_of e = ExpressionStatement l (CallExpression callee [a]) \<and>
        MODULE_REQUIRE_IMMEDIATE (node_of e) \<and>
        start_pos e = loc_start l \<and> end_pos e = loc_end l)"
  proof cases
    case 1
    from import_declaration_stubs_ex [OF 1(2)] obtain l specifiers source sl where
      s: "s = ImportDeclaration l specifiers source sl" and
      e: "node_of e = s" "path e = Some (trimEnd source CHR ''/'')"
         "start_pos e = loc_start l" "end_pos e = loc_end l"
      by (elim exE conjE)
    have d: "source = trimEnd source CHR ''/'' @
               replicate (length (takeWhile (\<lambda>x. x = CHR ''/'') (rev source))) CHR ''/''"
      by (rule trimEnd_decompose)
    have t: "trimEnd source CHR ''/'' = [] \<or> last (trimEnd source CHR ''/'') \<noteq> CHR ''/''"
      by (rule trimEnd_no_trailing)
    have "\<exists>l specifiers source sl n.
        ImportDeclaration l specifiers source sl \<in> set (program_body tree) \<and>
        node_of e = ImportDeclaration l specifiers source sl \<and>
        path e = Some (trimEnd source CHR ''/'') \<and>
        source = trimEnd source CHR ''/'' @ replicate n CHR ''/'' \<and>
        (trimEnd source CHR ''/'' = [] \<or> last (trimEnd source CHR ''/'') \<noteq> CHR ''/'') \<and>
        start_pos e = loc_start l \<and> end_pos e = loc_end l"
    proof (intro exI conjI)
      show "ImportDeclaration l specifiers source sl \<in> set (program_body tree)"
        using 1(1) s by (simp only:)
      show "node_of e = ImportDeclaration l specifiers source sl" using e(1) s by (simp only:)
      show "path e = Some (trimEnd source CHR ''/'')" by (rule e(2))
      show "source = trimEnd source CHR ''/'' @
               replicate (length (takeWhile (\<lambda>x. x = CHR ''/'') (rev source))) CHR ''/''"
        by (rule d)
      show "trimEnd source CHR ''/'' = [] \<or> last (trimEnd source CHR ''/'') \<noteq> CHR ''/''"
        by (rule t)
      show "start_pos e = loc_start l" by (rule e(3))
      show "end_pos e = loc_end l" by (rule e(4))
    qed
    then show ?thesis by (rule disjI1)
  next
    case 2
    from require_declaration_stubs_ex [OF 2(2)] obtain l declarations where
      s: "s = VariableDeclaration l declarations" and
      e: "node_of e \<in> set declarations" "MODULE_REQUIRE (node_of e)"
         "start_pos e = loc_start l" "end_pos e = loc_end l"
      by (elim exE conjE)
    have "\<exists>l declarations.
        VariableDeclaration l declarations \<in> set (program_body tree) \<and>
        node_of e \<in> set declarations \<and> MODULE_REQUIRE (node_of e) \<and>
        start_pos e = loc_start l \<and> end_pos e = loc_end l"
    proof (intro exI conjI)
      show "VariableDeclaration l declarations \<in> set (program_body tree)"
        using 2(1) s by (simp only:)
      show "node_of e \<in> set declarations" by (rule e(1))
      show "MODULE_REQUIRE (node_of e)" by (rule e(2))
      show "start_pos e = loc_start l" by (rule e(3))
      show "end_pos e = loc_end l" by (rule e(4))
    qed
    then show ?thesis by (intro disjI2 disjI1)
  next
    case 3
    from require_immediate_stubs_ex [OF 3(2)] obtain l callee a where
      s: "s = ExpressionStatement l (CallExpression callee [a])" and
      e: "MODULE_REQUIRE_IMMEDIATE s" "node_of e = s"
         "start_pos e = loc_start l" "end_pos e = loc_end l"
      by (elim exE conjE)
    have "\<exists>l callee a.
        ExpressionStatement l (CallExpression callee [a]) \<in> set (program_body tree) \<and>
        node_of e = ExpressionStatement l (CallExpression callee [a]) \<and>
        MODULE_REQUIRE_IMMEDIATE (node_of e) \<and>
        start_pos e = loc_start l \<and> end_pos e = loc_end l"
    proof (intro exI conjI)
      show "ExpressionStatement l (CallExpression callee [a]) \<in> set (program_body tree)"
        using 3(1) s by (simp only:)
      show "node_of e = ExpressionStatement l (CallExpression callee [a])"
        using e(2) s by (simp only:)
      show "MODULE_REQUIRE_IMMEDIATE (node_of e)" using e(1,2) by (simp only:)
      show "start_pos e = loc_start l" by (rule e(3))
      show "end_pos e = loc_end l" by (rule e(4))
    qed
    then show ?thesis by (intro disjI2)
  qed
qed

text \<open>
  Witness for C5: a document with the two statements \<^verbatim>\<open>import './a//'\<close> and
  \<^verbatim>\<open>require('./b/')\<close>. The first entry extracted is the import declaration, with the
  path \<^verbatim>\<open>./a\<close> and the range of the statement.
\<close>

theorem getExistingImports_entries_witness:
  "hd (getExistingImports (Some \<lparr>program_body =
      [ImportDeclaration \<lparr>loc_start = \<lparr>line = 1, column = 0\<rparr>, loc_end = \<lparr>line = 1, column = 15\<rparr>\<rparr>
         [] ''./a//'' \<lparr>loc_start = \<lparr>line = 1, column = 7\<rparr>, loc_end = \<lparr>line = 1, column = 15\<rparr>\<rparr>,
       ExpressionStatement \<lparr>loc_start = \<lparr>line = 2, column = 0\<rparr>, loc_end = \<lparr>line = 2, column = 15\<rparr>\<rparr>
         (CallExpression (Identifier ''require'')
            [StringLiteral ''./b/'' \<lparr>loc_start = \<lparr>line = 2, column = 8\<rparr>, loc_end = \<lparr>line = 2, column = 14\<rparr>\<rparr>])]\<rparr>))
     \<in> set (getExistingImports (Some \<lparr>program_body =
      [ImportDeclaration \<lparr>loc_start = \<lparr>line = 1, column = 0\<rparr>, loc_end = \<lparr>line = 1, column = 15\<rparr>\<rparr>
         [] ''./a//'' \<lparr>loc_start = \<lparr>line = 1, column = 7\<rparr>, loc_end = \<lparr>line = 1, column = 15\<rparr>\<rparr>,
       ExpressionStatement \<lparr>loc_start = \<lparr>line = 2, column = 0\<rparr>, loc_end = \<lparr>line = 2, column = 15\<rparr>\<rparr>
         (CallExpression (Identifier ''require'')
            [StringLiteral ''./b/'' \<lparr>loc_start = \<lparr>line = 2, column = 8\<rparr>, loc_end = \<lparr>line = 2, column = 14\<rparr>\<rparr>])]\<rparr>)) \<and>
   path (hd (getExistingImports (Some \<lparr>program_body =
      [ImportDeclaration \<lparr>loc_start = \<lparr>line = 1, column = 0\<rparr>, loc_end = \<lparr>line = 1, column = 15\<rparr>\<rparr>
         [] ''./a//'' \<lparr>loc_start = \<lparr>line = 1, column = 7\<rparr>, loc_end = \<lparr>line = 1, column = 15\<rparr>\<rparr>,
       ExpressionStatement \<lparr>loc_start = \<lparr>line = 2, column = 0\<rparr>, loc_end = \<lparr>line = 2, column = 15\<rparr>\<rparr>
         (CallExpression (Identifier ''require'')
            [StringLiteral ''./b/'' \<lparr>loc_start = \<lparr>line = 2, column = 8\<rparr>, loc_end = \<lparr>line = 2, column = 14\<rparr>\<rparr>])]\<rparr>)))
     = Some ''./a'' \<and>
   start_pos (hd (getExistingImports (Some \<lparr>program_body =
      [ImportDeclaration \<lparr>loc_start = \<lparr>line = 1, column = 0\<rparr>, loc_end = \<lparr>line = 1, column = 15\<rparr>\<rparr>
         [] ''./a//'' \<lparr>loc_start = \<lparr>line = 1, column = 7\<rparr>, loc_end = \<lparr>line = 1, column = 15\<rparr>\<rparr>,
       ExpressionStatement \<lparr>loc_start = \<lparr>line = 2, column = 0\<rparr>, loc_end = \<lparr>line = 2, column = 15\<rparr>\<rparr>
         (CallExpression (Identifier ''require'')
            [StringLiteral ''./b/'' \<lparr>loc_start = \<lparr>line = 2, column = 8\<rparr>, loc_end = \<lparr>line = 2, column = 14\<rparr>\<rparr>])]\<rparr>)))
     = \<lparr>line = 1, column = 0\<rparr>"
proof -
  let ?t = "\<lparr>program_body =
      [ImportDeclaration \<lparr>loc_start = \<lparr>line = 1, column = 0\<rparr>, loc_end = \<lparr>line = 1, column = 15\<rparr>\<rparr>
         [] ''./a//'' \<lparr>loc_start = \<lparr>line = 1, column = 7\<rparr>, loc_end = \<lparr>line = 1, column = 15\<rparr>\<rparr>,
       ExpressionStatement \<lparr>loc_start = \<lparr>line = 2, column = 0\<rparr>, loc_end = \<lparr>line = 2, column = 15\<rparr>\<rparr>
         (CallExpression (Identifier ''require'')
            [StringLiteral ''./b/'' \<lparr>loc_start = \<lparr>line = 2, column = 8\<rparr>, loc_end = \<lparr>line = 2, column = 14\<rparr>\<rparr>])]\<rparr>"
  let ?e = "hd (getExistingImports (Some ?t))"
  have m: "?e \<in> set (getExistingImports (Some ?t))"
    by (simp add: getExistingImports_def)
  note getExistingImports_entries [of ?t, THEN bspec, OF m]
  then have "start_pos ?e = \<lparr>line = 1, column = 0\<rparr>"
    by (simp add: getExistingImports_def)
  moreover have "path ?e = Some ''./a''"
    by (simp add: getExistingImports_def trimEnd_def)
  ultimately show ?thesis using m by (simp only: simp_thms)
qed

text \<open>
  Counterexample to C5 as stated: in that document the import of \<^verbatim>\<open>./a//\<close> is recorded
  with the path \<^verbatim>\<open>./a\<close> and the require of \<^verbatim>\<open>./b/\<close> with the path \<^verbatim>\<open>./b/\<close>, where
  trimming exactly one trailing slash gives \<^verbatim>\<open>./a/\<close> and \<^verbatim>\<open>./b\<close>.
\<close>

theorem getExistingImports_path_counterexample:
  "map path (getExistingImports (Some \<lparr>program_body =
      [ImportDeclaration \<lparr>loc_start = \<lparr>line = 1, column = 0\<rparr>, loc_end = \<lparr>line = 1, column = 15\<rparr>\<rparr>
         [] ''./a//'' \<lparr>loc_start = \<lparr>line = 1, column = 7\<rparr>, loc_end = \<lparr>line = 1, column = 15\<rparr>\<rparr>,
       ExpressionStatement \<lparr>loc_start = \<lparr>line = 2, column = 0\<rparr>, loc_end = \<lparr>line = 2, column = 15\<rparr>\<rparr>
         (CallExpression (Identifier ''require'')
            [StringLiteral ''./b/'' \<lparr>loc_start = \<lparr>line = 2, column = 8\<rparr>, loc_end = \<lparr>line = 2, column = 14\<rparr>\<rparr>])]\<rparr>))
     = [Some ''./a'', Some ''./b/''] \<and>
   map (\<lambda>literal. Some (trim_one_trailing_slash literal)) [''./a//'', ''./b/'']
     = [Some ''./a/'', Some ''./b'']"
  by (simp add: getExistingImports_def trimEnd_def trim_one_trailing_slash_def)

section \<open>Exported names never include the default export\<close>

lemma getExportedVariables_returns:
  "\<exists>names. getExportedVariables (Suc depth) host filePath = Inr names"
  by (simp add: Let_def split: option.split sum.split)

lemma getExportedVariables_no_default:
  "getExportedVariables depth host filePath = Inr names \<Longrightarrow> ''default'' \<notin> set names"
proof (cases depth)
  case 0
  then show "getExportedVariables depth host filePath = Inr names \<Longrightarrow> ?thesis" by simp
next
  case (Suc d)
  then show "getExportedVariables depth host filePath = Inr names \<Longrightarrow> ?thesis"
    by (auto simp: Let_def split: option.splits sum.splits)
qed

text \<open>
  Claim C10. Export resolution returns a list whenever the call stack holds the call,
  and the list it returns never contains the name \<^verbatim>\<open>default\<close>, at any depth of the
  recursion: the names gathered through a star re-export are the result of the inner
  call and pass the same filter again.
\<close>

theorem getExportedVariables_excludes_default:
  "(\<exists>names. getExportedVariables (Suc depth) host filePath = Inr names) \<and>
   (\<forall>names. getExportedVariables depth host filePath = Inr names
      \<longrightarrow> ''default'' \<notin> set names)"
  using getExportedVariables_returns getExportedVariables_no_default by blast

text \<open>
  Witness for C10: with the two example modules, the exports of \<^verbatim>\<open>/w/src/a.js\<close> are
  \<^verbatim>\<open>y\<close> (its own named export; \<^verbatim>\<open>x as default\<close> is dropped) and \<^verbatim>\<open>z\<close> (through the
  star re-export of \<^verbatim>\<open>b.js\<close>, whose \<^verbatim>\<open>default\<close> property is dropped).
\<close>

theorem getExportedVariables_excludes_default_witness:
  "getExportedVariables 3 example_modules ''/w/src/a.js'' = Inr [''y'', ''z''] \<and>
   ''default'' \<notin> set [''y'', ''z'']"
proof -
  have e: "getExportedVariables 3 example_modules ''/w/src/a.js'' = Inr [''y'', ''z'']"
    by (simp add: numeral_3_eq_3 example_modules_def example_host_def Let_def parse_def
        trimStart_def posix_extname_def posix_basename_def getFilePathWithExtension_def
        posix_resolve_def compact_def specifier_name_def List.map_filter_def)
  from getExportedVariables_excludes_default [of 3 example_modules "''/w/src/a.js''"] e
  have "''default'' \<notin> set [''y'', ''z'']" by blast
  with e show ?thesis by (simp only: simp_thms)
qed

section \<open>The file cache and the requesting document\<close>

lemma new_FileItem_id: "item_id (new_FileItem host filePath rootPath options ext)
    = fullPath (fileInfo (new_FileItem host filePath rootPath options ext))"
  by (simp add: new_FileItem_def Let_def)

lemma cached_or_listed_ids:
  "ids_are_paths this \<Longrightarrow>
   map item_id (cached_or_listed host this rootPath)
     = map (\<lambda>item. fullPath (fileInfo item)) (cached_or_listed host this rootPath)"
  by (simp add: ids_are_paths_def cached_or_listed_def new_FileItem_id split: option.splits)

lemma assign_sortablePath_same [simp]:
  "item_id (assign_sortablePath host d item) = item_id item"
  "fileInfo (assign_sortablePath host d item) = fileInfo item"
  by (simp_all add: assign_sortablePath_def)

text \<open>The cache after a request holds the same ids and files as the cache it worked on.\<close>

lemma fileItemCache_getItems:
  "fileItemCache (fst (getItems host this document)) = fileItemCache this \<or>
   (\<exists>cache. fileItemCache (fst (getItems host this document)) = Some cache
      \<and> map item_id cache
          = map item_id (cached_or_listed host this (getWorkspaceFolder host (fileName document)))
      \<and> map fileInfo cache
          = map fileInfo (cached_or_listed host this (getWorkspaceFolder host (fileName document))))"
proof (cases "WORKING_LANGUAGE (languageId document)")
  case False
  then show ?thesis by (simp add: getItems_def)
next
  case True
  let ?c = "cached_or_listed host this (getWorkspaceFolder host (fileName document))"
  have "\<exists>cache. fileItemCache (fst (getItems host this document)) = Some cache
      \<and> map item_id cache = map item_id ?c \<and> map fileInfo cache = map fileInfo ?c"
  proof (cases "those (map compile_filter_rule (filteredFileList (baseConfig this)))")
    case None
    with True show ?thesis
      by (simp add: getItems_def Let_def)
  next
    case (Some rules)
    with True show ?thesis
      by (simp add: getItems_def Let_def comp_def split: option.split sum.split)
  qed
  then show ?thesis by (rule disjI2)
qed

lemma ids_are_paths_getItems:
  assumes "ids_are_paths this"
  shows "ids_are_paths (fst (getItems host this document))"
proof -
  let ?c = "cached_or_listed host this (getWorkspaceFolder host (fileName document))"
  from fileItemCache_getItems [of host this document]
  consider "fileItemCache (fst (getItems host this document)) = fileItemCache this"
    | cache where "fileItemCache (fst (getItems host this document)) = Some cache"
      "map item_id cache = map item_id ?c" "map fileInfo cache = map fileInfo ?c"
    by (elim disjE exE conjE)
  then show ?thesis
  proof cases
    case 1
    with assms show ?thesis by (simp add: ids_are_paths_def)
  next
    case 2
    have "map (\<lambda>item. fullPath (fileInfo item)) cache = map fullPath (map fileInfo cache)"
      by simp
    also have "\<dots> = map fullPath (map fileInfo ?c)"
      by (simp only: 2(3))
    also have "\<dots> = map item_id ?c"
      using cached_or_listed_ids [OF assms, of host "getWorkspaceFolder host (fileName document)"]
      by simp
    finally show ?thesis using 2(1,2) by (simp add: ids_are_paths_def)
  qed
qed

lemma remove_first_subset: "set (remove_first P xs) \<subseteq> set xs"
  by (induction xs) auto

lemma remove_first_all:
  "\<forall>x\<in>set xs. Q x \<Longrightarrow> \<forall>x\<in>set (remove_first P xs). Q x"
  using remove_first_subset [of P xs] by blast

lemma ids_are_paths_addItem:
  assumes "ids_are_paths this"
  shows "ids_are_paths (addItem host this filePath)"
proof (cases "fileItemCache this")
  case None
  with assms show ?thesis by (simp add: addItem_def)
next
  case (Some cache)
  with assms have "map item_id cache = map (\<lambda>item. fullPath (fileInfo item)) cache"
    by (simp add: ids_are_paths_def)
  with Some show ?thesis
    by (simp add: ids_are_paths_def addItem_def new_FileItem_id)
qed

lemma ids_are_paths_cutItem:
  assumes "ids_are_paths this"
  shows "ids_are_paths (cutItem host this filePath)"
proof (cases "fileItemCache this")
  case None
  with assms show ?thesis by (simp add: cutItem_def)
next
  case (Some cache)
  with assms have "\<forall>item\<in>set cache. item_id item = fullPath (fileInfo item)"
    by (simp add: ids_are_paths_def)
  then have "\<forall>item\<in>set (remove_first (\<lambda>item. fullPath (fileInfo item)
                 = fullPath (newFileInfo host filePath)) cache).
               item_id item = fullPath (fileInfo item)"
    by (rule remove_first_all)
  with Some show ?thesis
    by (simp add: ids_are_paths_def cutItem_def)
qed

lemma ids_are_paths_reachable: "reachable host this \<Longrightarrow> ids_are_paths this"
proof (induction rule: reachable.induct)
  case (reach_new config allowTypeScript)
  show ?case by (simp add: ids_are_paths_def new_JavaScript_def)
next
  case (reach_getItems this document)
  then show ?case by (simp add: ids_are_paths_getItems)
next
  case (reach_addItem this filePath)
  then show ?case by (simp add: ids_are_paths_addItem)
next
  case (reach_cutItem this filePath)
  then show ?case by (simp add: ids_are_paths_cutItem)
next
  case (reach_reset this)
  show ?case by (simp add: ids_are_paths_def reset_def)
qed

text \<open>What \<^verbatim>\<open>getItems\<close> returns of files: cached items that passed the filters.\<close>

lemma getItems_returned_files:
  assumes "getItems host this document = (this', Returned (Some items))"
    and "FileCandidate candidate \<in> set items"
  shows "fullPath (fileInfo candidate) \<noteq> fullPath (newFileInfo host (fileName document)) \<and>
         (\<exists>cached\<in>set (cached_or_listed host this (getWorkspaceFolder host (fileName document))).
             item_id candidate = item_id cached \<and> fileInfo candidate = fileInfo cached)"
proof -
  let ?d = "newFileInfo host (fileName document)"
  let ?c = "cached_or_listed host this (getWorkspaceFolder host (fileName document))"
  from assms(1) have l: "WORKING_LANGUAGE (languageId document)"
    by (cases "WORKING_LANGUAGE (languageId document)") (simp_all add: getItems_def)
  from assms(1) l obtain rules where
    r: "those (map compile_filter_rule (filteredFileList (baseConfig this))) = Some rules"
    by (cases "those (map compile_filter_rule (filteredFileList (baseConfig this)))")
       (simp_all add: getItems_def Let_def)
  define rule where "rule = find (\<lambda>rule. test (fst rule) (fullPathForPOSIX ?d)) rules"
  define files where "files = sort_file_items host ?d
       (map (assign_sortablePath host ?d) (filter (kept this ?d rule) ?c))"
  from assms(1) l r have "\<exists>nodes. items = map FileCandidate files @ map NodeCandidate nodes"
    unfolding files_def rule_def
    by (auto simp: getItems_def Let_def split: option.splits sum.splits)
  then obtain nodes where "items = map FileCandidate files @ map NodeCandidate nodes" ..
  with assms(2) have "candidate \<in> set files" by auto
  then obtain cached where c: "cached \<in> set ?c" "kept this ?d rule cached"
    "candidate = assign_sortablePath host ?d cached"
    by (auto simp: files_def sort_file_items_def)
  from c(2,3) have "fullPath (fileInfo candidate) \<noteq> fullPath ?d"
    by (simp add: kept_def)
  moreover from c(3) have "item_id candidate = item_id cached \<and> fileInfo candidate = fileInfo cached"
    by simp
  ultimately show ?thesis using c(1) by blast
qed

text \<open>
  Claim C4, as the code has it. In every state that cache build, incremental add,
  incremental remove and reset reach, the candidate list that \<^verbatim>\<open>getItems\<close> returns for
  a requesting document holds no file candidate whose id is the document's full path:
  the current file is rejected from the cached list on every request. (The cache itself
  may hold it.)
\<close>

theorem getItems_excludes_current_file:
  assumes "reachable host this"
    and "getItems host this document = (this', Returned (Some items))"
    and "FileCandidate candidate \<in> set items"
  shows "item_id candidate \<noteq> fullPath (newFileInfo host (fileName document))"
proof -
  let ?c = "cached_or_listed host this (getWorkspaceFolder host (fileName document))"
  from assms(1) have inv: "ids_are_paths this" by (rule ids_are_paths_reachable)
  from getItems_returned_files [OF assms(2,3)] obtain cached where
    n: "fullPath (fileInfo candidate) \<noteq> fullPath (newFileInfo host (fileName document))"
    and c: "cached \<in> set ?c" "item_id candidate = item_id cached"
      "fileInfo candidate = fileInfo cached"
    by (elim conjE bexE)
  from cached_or_listed_ids [OF inv, of host "getWorkspaceFolder host (fileName document)"]
  have "\<forall>item\<in>set ?c. item_id item = fullPath (fileInfo item)"
    by simp
  with c(1) have "item_id cached = fullPath (fileInfo cached)" by blast
  with n c(2,3) show ?thesis by simp
qed

lemmas example_eval =
  getItems_def Let_def example_workspace_def example_host_def example_open_a_def
  new_JavaScript_def example_options_def WORKING_LANGUAGE_def ascii_lower_def
  cached_or_listed_def new_FileItem_def posix_file_info_def posix_basename_def posix_dirname_def
  posix_extname_def checkIfIndexPath_def WORKING_EXTENSION_def example_lodash_def trim_def
  trimEnd_def trimStart_def slashes_def compile_filter_rule_def kept_def TYPESCRIPT_EXTENSION_def
  assign_sortablePath_def sort_file_items_def find_package_json.simps node_cache_step_def
  posix_resolve_def

text \<open>
  Witness for C4: a new instance, the workspace with \<^verbatim>\<open>/w/a.js\<close> and \<^verbatim>\<open>/w/b.js\<close>, and
  the request of the open document \<^verbatim>\<open>/w/a.js\<close>. The candidates returned are the file
  \<^verbatim>\<open>/w/b.js\<close> alone.
\<close>

theorem getItems_excludes_current_file_witness:
  "(\<exists>this' candidate rest.
      getItems example_workspace (new_JavaScript example_options False) example_open_a
        = (this', Returned (Some (FileCandidate candidate # rest))) \<and>
      item_id candidate = ''/w/b.js'' \<and>
      item_id candidate \<noteq> fullPath (newFileInfo example_workspace (fileName example_open_a))) \<and>
   fullPath (newFileInfo example_workspace (fileName example_open_a)) = ''/w/a.js''"
proof -
  let ?g = "getItems example_workspace (new_JavaScript example_options False) example_open_a"
  have r: "reachable example_workspace (new_JavaScript example_options False)"
    by (rule reach_new)
  obtain candidate where s: "snd ?g = Returned (Some [FileCandidate candidate])"
    and i: "item_id candidate = ''/w/b.js''"
    by (simp add: example_eval)
  have g: "?g = (fst ?g, Returned (Some [FileCandidate candidate]))"
    using s by (simp add: prod_eq_iff)
  have "item_id candidate \<noteq> fullPath (newFileInfo example_workspace (fileName example_open_a))"
    using r g by (rule getItems_excludes_current_file) simp
  moreover have "fullPath (newFileInfo example_workspace (fileName example_open_a)) = ''/w/a.js''"
    by (simp add: example_eval)
  ultimately show ?thesis using g i by blast
qed

text \<open>
  Counterexample to C4 as stated: that request is the cache build, and the cache it
  builds holds the items of both files, the one of the requesting document included.
\<close>

theorem fileItemCache_holds_current_file_counterexample:
  "reachable example_workspace
     (fst (getItems example_workspace (new_JavaScript example_options False) example_open_a)) \<and>
   map_option (map item_id)
     (fileItemCache
        (fst (getItems example_workspace (new_JavaScript example_options False) example_open_a)))
     = Some [''/w/a.js'', ''/w/b.js''] \<and>
   fullPath (newFileInfo example_workspace (fileName example_open_a)) = ''/w/a.js''"
proof (intro conjI)
  show "reachable example_workspace
     (fst (getItems example_workspace (new_JavaScript example_options False) example_open_a))"
    by (intro reach_getItems reach_new)
  show "map_option (map item_id)
     (fileItemCache
        (fst (getItems example_workspace (new_JavaScript example_options False) example_open_a)))
     = Some [''/w/a.js'', ''/w/b.js'']"
    by (simp add: example_eval)
  show "fullPath (newFileInfo example_workspace (fileName example_open_a)) = ''/w/a.js''"
    by (simp add: example_eval)
qed

text \<open>The definitions that evaluate \<^verbatim>\<open>fixImport\<close> on the example documents.\<close>

lemmas fix_eval =
  fixImport_def Let_def example_host_def WORKING_LANGUAGE_def ascii_lower_def
  new_FileItem_def posix_file_info_def posix_basename_def posix_dirname_def
  posix_extname_def checkIfIndexPath_def WORKING_EXTENSION_def example_lodash_def trim_def
  trimEnd_def trimStart_def slashes_def posix_resolve_def posix_relative_def
  parse_def getText_def totalImports_def is_broken_def findRequireRecursively.simps
  new_ImportStatementForFixingImport_def new_Range_def new_Position_def position_le_def
  fix_one_def rewrite_import_def getNameAndRelativePath_def getVariableName_def
  match_identifier_chars_def identifier_char_def is_digit_def strip_extension_def
  quoteChar_def getTextIn_def validatePosition_def edit_replace_def replace_lines_def
  isCancellationRequested_def showQuickPick_def emit_def fixESLint_def sq_def
  new_JavaScript_def example_options_def not_fixed_message_def show_nat.simps

section \<open>Fixing broken imports: no match, one match\<close>

lemma fix_one_no_match:
  assumes "findFilesRoughly host (originalRelativePath item)
             (fileExtensionWithoutLeadingDot documentFileInfo) = []"
  shows "fix_one host this documentFileInfo rootPath item state
           = Continue (state\<lparr>nonResolvableImports := nonResolvableImports state @ [item]\<rparr>)"
  using assms by (simp add: fix_one_def Let_def)

lemma fix_one_single_match:
  assumes "findFilesRoughly host (originalRelativePath item)
             (fileExtensionWithoutLeadingDot documentFileInfo) = [found]"
    and "getNameAndRelativePath host
           (new_FileItem host found rootPath (baseConfig this)
              (WORKING_EXTENSION (allowTypeScriptFiles this)))
           (directoryPath documentFileInfo) = Inr (name, relativePath)"
  shows "fix_one host this documentFileInfo rootPath item state
           = Continue (state\<lparr>fix_world := (fix_world state)\<lparr>editor_document :=
               edit_replace (editor_document (fix_world state)) (editableRange item)
                 (quoteChar (editor_document (fix_world state)) item @ relativePath
                  @ quoteChar (editor_document (fix_world state)) item)\<rparr>\<rparr>)"
  using assms by (simp add: fix_one_def rewrite_import_def Let_def)

lemma quoteChar_original:
  assumes "take 1 (getTextIn document (editableRange item)) = [CHR 0x27]
           \<or> take 1 (getTextIn document (editableRange item)) = [CHR 0x22]"
  shows "quoteChar document item = take 1 (getTextIn document (editableRange item))"
  using assms by (auto simp: quoteChar_def)

text \<open>The first loop asks nothing: it consumes no answer of a quick pick and shows none.\<close>

lemma rewrite_import_silent:
  assumes "rewrite_import host this documentFileInfo rootPath item chosen world = Inr world'"
  shows "events world' = events world \<and> picks world' = picks world"
proof (cases "getNameAndRelativePath host
             (new_FileItem host chosen rootPath (baseConfig this)
                (WORKING_EXTENSION (allowTypeScriptFiles this)))
             (directoryPath documentFileInfo)")
  case (Inl ex)
  with assms show ?thesis by (simp add: rewrite_import_def)
next
  case (Inr np)
  with assms show ?thesis by (cases np) (auto simp: rewrite_import_def)
qed

lemma fix_one_silent:
  assumes "fix_one host this documentFileInfo rootPath item state = Continue state'"
  shows "events (fix_world state') = events (fix_world state)
         \<and> picks (fix_world state') = picks (fix_world state)"
proof -
  let ?m = "findFilesRoughly host (originalRelativePath item)
              (fileExtensionWithoutLeadingDot documentFileInfo)"
  consider "length ?m = 0" | "length ?m = 1" | "length ?m \<noteq> 0 \<and> length ?m \<noteq> 1" by blast
  then show ?thesis
  proof cases
    case 1
    with assms show ?thesis by (auto simp: fix_one_def Let_def)
  next
    case 2
    then obtain x where m: "?m = [x]"
      by (cases ?m) simp_all
    show ?thesis
    proof (cases "rewrite_import host this documentFileInfo rootPath item x (fix_world state)")
      case (Inl ex)
      with assms m show ?thesis by (simp add: fix_one_def Let_def)
    next
      case (Inr world)
      with assms m have "state' = state\<lparr>fix_world := world\<rparr>"
        by (simp add: fix_one_def Let_def)
      with rewrite_import_silent [OF Inr] show ?thesis by simp
    qed
  next
    case 3
    with assms have "state' = state\<lparr>manualSolvableImports := manualSolvableImports state @ [item]\<rparr>"
      by (simp add: fix_one_def Let_def)
    then show ?thesis by simp
  qed
qed

lemma isCancellationRequested_silent:
  "events (snd (isCancellationRequested world)) = events world
   \<and> picks (snd (isCancellationRequested world)) = picks world"
  by (simp add: isCancellationRequested_def)

lemma fix_each_silent:
  "fix_each host this documentFileInfo rootPath items state = Continue state' \<Longrightarrow>
   events (fix_world state') = events (fix_world state)
   \<and> picks (fix_world state') = picks (fix_world state)"
proof (induction items arbitrary: state)
  case Nil
  then show ?case by simp
next
  case (Cons item items)
  obtain c world where c: "isCancellationRequested (fix_world state) = (c, world)"
    by (cases "isCancellationRequested (fix_world state)")
  with Cons.prems have nc: "c = False" by (cases c) simp_all
  from c isCancellationRequested_silent [of "fix_world state"]
  have w: "events world = events (fix_world state) \<and> picks world = picks (fix_world state)"
    by simp
  from Cons.prems c nc obtain mid where
    one: "fix_one host this documentFileInfo rootPath item (state\<lparr>fix_world := world\<rparr>) = Continue mid"
    and rest: "fix_each host this documentFileInfo rootPath items mid = Continue state'"
    by (cases "fix_one host this documentFileInfo rootPath item (state\<lparr>fix_world := world\<rparr>)")
       simp_all
  from fix_one_silent [OF one] w
  have "events (fix_world mid) = events (fix_world state)
        \<and> picks (fix_world mid) = picks (fix_world state)" by simp
  with Cons.IH [OF rest] show ?case by simp
qed

text \<open>
  The body of the first loop and the loop, on the document as it is when the entry is
  reached: with no matching file the import is added to the unresolved ones and nothing
  else changes; with exactly one matching file, and a relative path computed for it, the
  text that is now in the entry's range is replaced by that path between two quote
  characters; the quote character is the one that text starts with; and the whole first
  loop shows no quick pick and consumes no answer.
\<close>

lemma fix_one_policy:
  "(findFilesRoughly host (originalRelativePath item)
      (fileExtensionWithoutLeadingDot documentFileInfo) = [] \<longrightarrow>
      fix_one host this documentFileInfo rootPath item state
        = Continue (state\<lparr>nonResolvableImports := nonResolvableImports state @ [item]\<rparr>)) \<and>
   (findFilesRoughly host (originalRelativePath item)
      (fileExtensionWithoutLeadingDot documentFileInfo) = [found] \<and>
    getNameAndRelativePath host
      (new_FileItem host found rootPath (baseConfig this)
         (WORKING_EXTENSION (allowTypeScriptFiles this)))
      (directoryPath documentFileInfo) = Inr (name, relativePath) \<longrightarrow>
      fix_one host this documentFileInfo rootPath item state
        = Continue (state\<lparr>fix_world := (fix_world state)\<lparr>editor_document :=
            edit_replace (editor_document (fix_world state)) (editableRange item)
              (quoteChar (editor_document (fix_world state)) item @ relativePath
               @ quoteChar (editor_document (fix_world state)) item)\<rparr>\<rparr>)) \<and>
   (take 1 (getTextIn (editor_document (fix_world state)) (editableRange item)) = [CHR 0x27]
    \<or> take 1 (getTextIn (editor_document (fix_world state)) (editableRange item)) = [CHR 0x22]
    \<longrightarrow> quoteChar (editor_document (fix_world state)) item
          = take 1 (getTextIn (editor_document (fix_world state)) (editableRange item))) \<and>
   (fix_each host this documentFileInfo rootPath items state = Continue state' \<longrightarrow>
      events (fix_world state') = events (fix_world state)
      \<and> picks (fix_world state') = picks (fix_world state))"
  using fix_one_no_match [of host item documentFileInfo this rootPath state]
    fix_one_single_match [of host item documentFileInfo found rootPath this name relativePath state]
    quoteChar_original [of "editor_document (fix_world state)" item]
    fix_each_silent [of host this documentFileInfo rootPath items state state']
  by (intro conjI impI) (simp_all only:)

text \<open>
  In the document \<^verbatim>\<open>import x from './old/helper'\<close> the one broken import has one
  matching file and is rewritten in place, with its quote character.
\<close>

lemma fixImport_single_import_example:
  "fixImport broken_import_host (new_JavaScript example_options False) broken_import_world
     = (broken_import_world
          \<lparr>editor_document := (editor_document broken_import_world)
             \<lparr>doc_lines := [''import x from '' @ sq @ ''../lib/helper'' @ sq]\<rparr>,
           events := [StatusBarMessage
             ''Code Quicken: All broken import/require statements have been fixed.'']\<rparr>,
        Returned FixTrue)"
  by (simp add: fix_eval broken_import_host_def broken_import_world_def
      broken_import_text_def broken_import_tree_def)

text \<open>
  Claim C6 at two documents in which every broken import has exactly one matching
  file.
  \<^item> \<^verbatim>\<open>f(require('./old/a'), require('./old/b'))\<close>: the ranges of both literals are
    computed from the tree before the first edit. The first literal is rewritten, which
    makes the line one character longer; the range of the second entry then covers
    \<^verbatim>\<open>('./old/b\<close>, the text read for its quote character starts with the parenthesis,
    and the line becomes \<^verbatim>\<open>f(require('../lib/a'), require"../lib/b"'))\<close>: the second
    literal is not rewritten in place and its quote character is not kept.
  \<^item> \<^verbatim>\<open>import x from './old/2048'\<close>: the one match is \<^verbatim>\<open>/w/lib/2048.js\<close>. Computing the
    relative path computes the binding name first, which throws for the name \<^verbatim>\<open>2048\<close>;
    \<^verbatim>\<open>fixImport\<close> throws and the literal is not rewritten.
\<close>

theorem fixImport_single_match_divergence:
  "map originalRelativePath
       (filter (is_broken two_requires_host (newFileInfo two_requires_host ''/w/src/doc.js''))
          (totalImports two_requires_tree))
     = [''./old/a'', ''./old/b''] \<and>
   findFilesRoughly two_requires_host ''./old/a'' ''js'' = [''/w/lib/a.js''] \<and>
   findFilesRoughly two_requires_host ''./old/b'' ''js'' = [''/w/lib/b.js''] \<and>
   fixImport two_requires_host (new_JavaScript example_options False) two_requires_world
     = (two_requires_world
          \<lparr>editor_document := (editor_document two_requires_world)
             \<lparr>doc_lines := [''f(require('' @ sq @ ''../lib/a'' @ sq @ ''), require''
                             @ [CHR 0x22] @ ''../lib/b'' @ [CHR 0x22] @ sq @ ''))'']\<rparr>,
           events := [StatusBarMessage
             ''Code Quicken: All broken import/require statements have been fixed.'']\<rparr>,
        Returned FixTrue) \<and>
   findFilesRoughly number_name_host ''./old/2048'' ''js'' = [''/w/lib/2048.js''] \<and>
   fixImport number_name_host (new_JavaScript example_options False) number_name_world
     = (number_name_world, Thrown TypeError)"
  by (simp add: fix_eval two_requires_host_def two_requires_world_def two_requires_text_def
      two_requires_tree_def number_name_host_def number_name_world_def number_name_text_def
      number_name_tree_def)

section \<open>Fixing broken imports: a document that does not parse\<close>

lemma parse_null_iff: "parse host code = None \<longleftrightarrow> (\<exists>ex. babylon_parse host code = Inl ex)"
  by (cases "babylon_parse host code") (simp_all add: parse_def)

lemma getExistingImports_null: "getExistingImports None = []"
  by (simp add: getExistingImports_def)

lemma fixImport_null_tree:
  assumes "WORKING_LANGUAGE (languageId (editor_document world))"
    and "parse host (getText (editor_document world)) = None"
  shows "fixImport host this world = (world, Thrown TypeError)"
  using assms by (simp add: fixImport_def Let_def)

text \<open>
  Claim C3 at the document \<^verbatim>\<open>import {\<close>, which babylon rejects: \<^verbatim>\<open>parse\<close> returns
  \<^verbatim>\<open>null\<close> and \<^verbatim>\<open>getExistingImports\<close> makes the empty list of it, but \<^verbatim>\<open>fixImport\<close> reads
  \<^verbatim>\<open>codeTree.program\<close> of the \<^verbatim>\<open>null\<close> tree and throws a \<^verbatim>\<open>TypeError\<close>.
\<close>

theorem fixImport_throws_on_malformed_document:
  "parse malformed_host (getText (editor_document malformed_world)) = None \<and>
   getExistingImports (parse malformed_host (getText (editor_document malformed_world))) = [] \<and>
   fixImport malformed_host (new_JavaScript example_options False) malformed_world
     = (malformed_world, Thrown TypeError)"
proof -
  have p: "parse malformed_host (getText (editor_document malformed_world)) = None"
    by (simp add: malformed_host_def malformed_world_def example_host_def parse_def getText_def)
  have l: "WORKING_LANGUAGE (languageId (editor_document malformed_world))"
    by (simp add: malformed_world_def WORKING_LANGUAGE_def ascii_lower_def)
  from l p have "fixImport malformed_host (new_JavaScript example_options False) malformed_world
     = (malformed_world, Thrown TypeError)"
    by (rule fixImport_null_tree)
  with p show ?thesis by (simp add: getExistingImports_null)
qed

section \<open>Fixing broken imports: which paths are collected\<close>

text \<open>
  An import declaration is collected exactly when its source starts with a dot and
  holds none of the three characters; a require call when its argument starts with a
  dot, whatever else it holds.
\<close>

lemma fixable_import_declaration_iff:
  "fixable_import_declaration (ImportDeclaration l specifiers source sl) \<noteq> [] \<longleftrightarrow>
     take 1 source = ''.'' \<and> CHR ''?'' \<notin> set source \<and> CHR ''!'' \<notin> set source
     \<and> CHR 0x22 \<notin> set source"
  by simp

lemma fixable_require_call_iff:
  "fixable_require_call (CallExpression callee [StringLiteral v l]) \<noteq> [] \<longleftrightarrow> take 1 v = ''.''"
  by simp

text \<open>
  Claim C9 at the document \<^verbatim>\<open>const u = require('./util?raw')\<close>: the path holds a
  question mark, and yet the require is collected, searched (the only file named
  \<^verbatim>\<open>util?raw.js\<close> is \<^verbatim>\<open>/w/lib/util?raw.js\<close>) and rewritten.
\<close>

theorem fixImport_rewrites_loader_require:
  "map originalRelativePath (totalImports loader_require_tree) = [''./util?raw''] \<and>
   fixImport loader_require_host (new_JavaScript example_options False) loader_require_world
     = (loader_require_world
          \<lparr>editor_document := (editor_document loader_require_world)
             \<lparr>doc_lines := [''const u = require('' @ sq @ ''../lib/util?raw'' @ sq @ '')'']\<rparr>,
           events := [StatusBarMessage
             ''Code Quicken: All broken import/require statements have been fixed.'']\<rparr>,
        Returned FixTrue)"
  by (simp add: fix_eval loader_require_host_def loader_require_world_def
      loader_require_text_def loader_require_tree_def)

text \<open>The definitions that evaluate \<^verbatim>\<open>addImport\<close> on the example documents.\<close>

lemmas add_eval =
  Let_def example_host_def WORKING_LANGUAGE_def ascii_lower_def
  new_FileItem_def posix_file_info_def posix_basename_def posix_dirname_def
  posix_extname_def checkIfIndexPath_def WORKING_EXTENSION_def example_lodash_def trim_def
  trimEnd_def trimStart_def slashes_def posix_resolve_def posix_relative_def
  parse_def getText_def new_Range_def new_Position_def position_le_def
  getNameAndRelativePath_def getVariableName_def
  match_identifier_chars_def identifier_char_def is_digit_def strip_extension_def
  validatePosition_def edit_insert_def edit_replace_def replace_lines_def
  showQuickPick_def emit_def fixESLint_def sq_def example_options_def
  merge_stage_def merge_into_declaration_def merge_binding_def notify_duplicate_def
  apply_insert_def already_imported_def editor_position_def focusAt_def
  import_a_host_def import_a_world_def import_a_text_def import_a_declaration_def
  import_a_specifier_def import_a_location_def import_a_tree_def
  module_m_item_def module_m_tree_def
  addImport_def binding_stage_def index_file_stage_def own_file_stage_def hasIndexFile_def
  getIndexPath_def findInFile_def choose_export_def getExistingImports_def
  getDuplicateImport_def getFilePathWithExtension_def compact_def specifier_name_def
  numeral_3_eq_3 insert_stage_def existingVariableHash_def read_property_def
  variable_pairs_def fromPairs_def read_member_def read_inherited_def object_prototype_names_def
  replace_question_def modal_warnings_def edit_delete_def
  getImportSnippet_def eol_def showModalWarning_def is_style_sheet_def
  conflict_text_def conflict_tree_def conflict_host_def conflict_item_def conflict_world_def
  quick_picks_def dismisses_pick_def answers_replace_def
  prototype_text_def prototype_tree_def prototype_host_def prototype_item_def prototype_world_def
  app_document_def module_m_host_def module_m_world_def entry_of_def named_import_of_m_def
  two_paths_lines_def import_x_declaration_def two_paths_tree_def same_path_lines_def
  same_path_tree_def

section \<open>Adding an import: what the choice of the binding leaves alone\<close>









section \<open>Merging a named import into an existing declaration\<close>








lemma merge_binding_find:
  assumes "take 1 (binding_name binding) = ''{''"
  shows "find (\<lambda>node. (spec_type node = ImportDefaultSpecifier \<and> take 1 (binding_name binding) \<noteq> ''{'')
                           \<or> (spec_type node = ImportSpecifier
                               \<and> imported_name node = Some (iden binding))) specifiers
         = find (\<lambda>node. spec_type node = ImportSpecifier
                        \<and> imported_name node = Some (iden binding)) specifiers"
  using assms by simp











section \<open>Adding an import: dismissed questions\<close>













lemma quick_picks_document:
  "quick_picks (world\<lparr>editor_document := d\<rparr>) = quick_picks world"
  by (simp add: quick_picks_def)

lemma quick_picks_asked:
  "quick_picks ((emit (ModalWarning message) world)\<lparr>dialogs := ds\<rparr>) = quick_picks world"
  by (simp add: emit_def quick_picks_def)

















text \<open>
  The hash in the document \<^verbatim>\<open>import __proto__ from './x'\<close>: the pair named
  \<^verbatim>\<open>__proto__\<close> sets the prototype, and the identifier \<^verbatim>\<open>node\<close> of the file
  \<^verbatim>\<open>/w/src/node.js\<close> reads the node of that statement. The warning is shown; the answer
  \<^verbatim>\<open>Replace It\<close> makes the run throw, the answer \<^verbatim>\<open>Keep Both\<close> inserts the statement.
\<close>

lemma addImport_prototype_example:
  "read_property (existingVariableHash (getExistingImports (Some prototype_tree))) ''node''
     = Some (NodeValue (hd (program_body prototype_tree))) \<and>
   addImport prototype_host prototype_item (prototype_world [ReplaceIt])
     = ((prototype_world [])\<lparr>events := [ModalWarning (replace_question ''node'')]\<rparr>,
        Thrown InvalidArguments) \<and>
   addImport prototype_host prototype_item (prototype_world [KeepBoth])
     = ((prototype_world [])
          \<lparr>editor_document := (editor_document (prototype_world []))
             \<lparr>doc_lines := [''import node from '' @ sq @ ''./node'' @ sq,
                            ''import __proto__ from '' @ sq @ ''./x'' @ sq]\<rparr>,
           events := [ModalWarning (replace_question ''node'')]\<rparr>,
        Returned ())"
  by (simp add: add_eval)

end
